theory Spec2Isabelle
  imports Main
begin

section \<open>Python values and exceptions\<close>

text \<open>
  The script \<^verbatim>\<open>scripts/deps-analyze.py\<close> is dynamically typed. Values decoded from JSON
  are modelled by the datatype \<open>json\<close> (Python \<^verbatim>\<open>None\<close>, \<^verbatim>\<open>bool\<close>, \<^verbatim>\<open>int\<close>, \<^verbatim>\<open>str\<close>,
  \<^verbatim>\<open>list\<close>, \<^verbatim>\<open>dict\<close>; an object is the association list of its distinct keys). JSON numbers
  with a fraction or an exponent decode to floats and are outside this model. A character
  is a code point below 256; in that range the regular-expression class \<^verbatim>\<open>\d\<close> is
  \<^verbatim>\<open>0\<close>..\<^verbatim>\<open>9\<close> and \<^verbatim>\<open>\s\<close> and \<^verbatim>\<open>str.strip\<close> agree on the twelve code points of \<open>isspace\<close>.
\<close>

datatype json =
    JNull
  | JBool bool
  | JInt int
  | JStr string
  | JArr "json list"
  | JObj "(string \<times> json) list"

text \<open>
  Every raise of the source is a value of \<open>exn\<close>. \<open>SystemExit\<close> is what \<^verbatim>\<open>sys.exit\<close>
  raises; all the others are subclasses of \<^verbatim>\<open>Exception\<close>.
\<close>

datatype exn =
    KeyError string
  | TypeError
  | AttributeError
  | ValueError
  | IndexError
  | JSONDecodeError
  | CalledProcessError
  | OSError string
  | SystemExit int

definition bindE :: "exn + 'a \<Rightarrow> ('a \<Rightarrow> exn + 'b) \<Rightarrow> exn + 'b" where
  "bindE m f = (case m of Inl e \<Rightarrow> Inl e | Inr x \<Rightarrow> f x)"

section \<open>Version classifier\<close>

definition isdigit :: "char \<Rightarrow> bool" where
  "isdigit c = (48 \<le> (of_char c :: nat) \<and> (of_char c :: nat) \<le> 57)"

definition isspace :: "char \<Rightarrow> bool" where
  "isspace c = ((of_char c :: nat) \<in> {9, 10, 11, 12, 13, 28, 29, 30, 31, 32, 133, 160})"

text \<open>\<^verbatim>\<open>version.lstrip('v')\<close>: every leading \<^verbatim>\<open>v\<close> is removed.\<close>

definition lstrip_v :: "string \<Rightarrow> string" where
  "lstrip_v s = dropWhile (\<lambda>c. c = CHR ''v'') s"

text \<open>\<^verbatim>\<open>s.split(sep)\<close> for a one-character separator: never empty, \<^verbatim>\<open>''.split('.') == ['']\<close>.\<close>

fun split_on :: "char \<Rightarrow> string \<Rightarrow> string list" where
  "split_on sep [] = [[]]"
| "split_on sep (c # cs) =
     (if c = sep then [] # split_on sep cs
      else (case split_on sep cs of [] \<Rightarrow> [[c]] | p # ps \<Rightarrow> (c # p) # ps))"

text \<open>\<^verbatim>\<open>re.match(r'(\d+)', part)\<close>: the leading run of digits, no match when it is empty.\<close>

definition match_digits :: "string \<Rightarrow> string option" where
  "match_digits part =
     (let ds = takeWhile isdigit part in if ds = [] then None else Some ds)"

text \<open>
  \<^verbatim>\<open>int(s)\<close> on a run of decimal digits. CPython refuses a string with more than
  \<^verbatim>\<open>sys.get_int_max_str_digits()\<close> digits (4300 unless reconfigured) with a
  \<^verbatim>\<open>ValueError\<close>; leading zeros count.
\<close>

definition int_max_str_digits :: nat where
  "int_max_str_digits = 4300"

definition digit_val :: "char \<Rightarrow> int" where
  "digit_val c = int (of_char c) - 48"

definition py_int :: "string \<Rightarrow> exn + int" where
  "py_int ds =
     (if int_max_str_digits < length ds then Inl ValueError
      else Inr (foldl (\<lambda>n c. 10 * n + digit_val c) 0 ds))"

text \<open>The body of the \<^verbatim>\<open>for part in parts\<close> loop: the inner \<^verbatim>\<open>try\<close> turns any raise into 0.\<close>

definition parse_part :: "string \<Rightarrow> int" where
  "parse_part part =
     (case match_digits part of
        None \<Rightarrow> 0
      | Some ds \<Rightarrow> (case py_int ds of Inl e \<Rightarrow> 0 | Inr n \<Rightarrow> n))"

text \<open>\<^verbatim>\<open>while len(result) < 3: result.append(0)\<close>\<close>

function pad3 :: "int list \<Rightarrow> int list" where
  "pad3 result = (if length result < 3 then pad3 (result @ [0]) else result)"
  by pat_completeness auto
termination
  by (relation "measure (\<lambda>result. 3 - length result)") auto

declare pad3.simps [simp del]

text \<open>
  \<open>parse_version\<close>: the method call \<^verbatim>\<open>version.lstrip\<close> raises \<^verbatim>\<open>AttributeError\<close> on a value
  that is not a string (the probe for the native manifest passes decoded JSON). The
  returned tuple is a list.
\<close>

definition parse_version :: "json \<Rightarrow> exn + int list" where
  "parse_version version =
     (case version of
        JStr s \<Rightarrow>
          (let parts = take 3 (split_on CHR ''.'' (lstrip_v s));
               result = map parse_part parts
           in Inr (take 3 (pad3 result)))
      | _ \<Rightarrow> Inl AttributeError)"

text \<open>Tuple indexing \<^verbatim>\<open>t[i]\<close> for \<open>i \<ge> 0\<close>.\<close>

definition tuple_get :: "int list \<Rightarrow> nat \<Rightarrow> exn + int" where
  "tuple_get t i = (if i < length t then Inr (t ! i) else Inl IndexError)"

text \<open>The body of the \<^verbatim>\<open>try\<close> of \<open>determine_semver_change\<close>.\<close>

definition semver_try :: "json \<Rightarrow> json \<Rightarrow> exn + string" where
  "semver_try current latest =
     bindE (parse_version current) (\<lambda>current_parts.
     bindE (parse_version latest) (\<lambda>latest_parts.
     bindE (tuple_get current_parts 0) (\<lambda>c0.
     bindE (tuple_get latest_parts 0) (\<lambda>l0.
       if c0 \<noteq> l0 then Inr ''major''
       else
         bindE (tuple_get current_parts 1) (\<lambda>c1.
         bindE (tuple_get latest_parts 1) (\<lambda>l1.
           if c1 \<noteq> l1 then Inr ''minor''
           else
             bindE (tuple_get current_parts 2) (\<lambda>c2.
             bindE (tuple_get latest_parts 2) (\<lambda>l2.
               if c2 \<noteq> l2 then Inr ''patch'' else Inr ''other''))))))))"

text \<open>The bare \<^verbatim>\<open>except:\<close> catches everything.\<close>

definition determine_semver_change :: "json \<Rightarrow> json \<Rightarrow> string" where
  "determine_semver_change current latest =
     (case semver_try current latest of Inl e \<Rightarrow> ''unknown'' | Inr s \<Rightarrow> s)"

section \<open>Operations on decoded JSON\<close>

text \<open>
  Python's \<^verbatim>\<open>==\<close> on decoded JSON: \<^verbatim>\<open>bool\<close> is a subclass of \<^verbatim>\<open>int\<close> (\<^verbatim>\<open>True == 1\<close>), lists
  compare element by element, dicts compare as maps, values of different kinds differ.
\<close>

fun py_num :: "json \<Rightarrow> int option" where
  "py_num (JBool b) = Some (if b then 1 else 0)"
| "py_num (JInt i) = Some i"
| "py_num _ = None"

fun py_eq :: "json \<Rightarrow> json \<Rightarrow> bool" where
  "py_eq JNull JNull = True"
| "py_eq (JStr s) (JStr t) = (s = t)"
| "py_eq (JArr xs) (JArr ys) = list_all2 py_eq xs ys"
| "py_eq (JObj kvs) (JObj kws) =
     (length kvs = length kws \<and>
      list_all (\<lambda>(k, v). case map_of kws k of None \<Rightarrow> False | Some w \<Rightarrow> py_eq v w) kvs)"
| "py_eq a b = (case (py_num a, py_num b) of (Some m, Some n) \<Rightarrow> m = n | _ \<Rightarrow> False)"

definition py_ne :: "json \<Rightarrow> json \<Rightarrow> bool" where
  "py_ne a b = (\<not> py_eq a b)"

text \<open>\<^verbatim>\<open>d[key]\<close> with a string key: only a dict can be subscripted by a string.\<close>

definition py_getitem :: "json \<Rightarrow> string \<Rightarrow> exn + json" where
  "py_getitem d key =
     (case d of
        JObj kvs \<Rightarrow> (case map_of kvs key of None \<Rightarrow> Inl (KeyError key) | Some v \<Rightarrow> Inr v)
      | _ \<Rightarrow> Inl TypeError)"

text \<open>\<^verbatim>\<open>d.get(key, default)\<close>: only a dict has the method.\<close>

definition py_get :: "json \<Rightarrow> string \<Rightarrow> json \<Rightarrow> exn + json" where
  "py_get d key dflt =
     (case d of
        JObj kvs \<Rightarrow> (case map_of kvs key of None \<Rightarrow> Inr dflt | Some v \<Rightarrow> Inr v)
      | _ \<Rightarrow> Inl AttributeError)"

text \<open>\<^verbatim>\<open>len(x)\<close> and the items \<^verbatim>\<open>for dep in x\<close> visits (a dict yields its keys, a string its characters).\<close>

definition py_len :: "json \<Rightarrow> exn + nat" where
  "py_len x =
     (case x of
        JArr xs \<Rightarrow> Inr (length xs)
      | JObj kvs \<Rightarrow> Inr (length kvs)
      | JStr s \<Rightarrow> Inr (length s)
      | _ \<Rightarrow> Inl TypeError)"

definition py_iter :: "json \<Rightarrow> exn + json list" where
  "py_iter x =
     (case x of
        JArr xs \<Rightarrow> Inr xs
      | JObj kvs \<Rightarrow> Inr (map (\<lambda>kv. JStr (fst kv)) kvs)
      | JStr s \<Rightarrow> Inr (map (\<lambda>c. JStr [c]) s)
      | _ \<Rightarrow> Inl TypeError)"

section \<open>Reports\<close>

text \<open>
  The dictionaries the script builds have a fixed set of possible keys; each is a record
  whose field is \<open>None\<close> when the key is absent. An \<open>update_info\<close> holds the values of a
  dependency as the probe found them (decoded JSON for the native manifest, strings for
  the secondary modules, which omit \<open>kind\<close>).
\<close>

record update_info =
  name :: json
  current :: json
  latest :: json
  change_type :: string
  kind :: "json option"

record ecosystem_result =
  error :: "string option"
  module_path :: "string option"
  total_deps :: "nat option"
  outdated_count :: "nat option"
  updates :: "update_info list option"
  security_advisories :: "json list option"

text \<open>The empty dict \<^verbatim>\<open>{}\<close> and the dict \<^verbatim>\<open>{"error": msg}\<close>.\<close>

definition empty_result :: ecosystem_result where
  "empty_result =
     \<lparr>error = None, module_path = None, total_deps = None, outdated_count = None,
      updates = None, security_advisories = None\<rparr>"

definition error_result :: "string \<Rightarrow> ecosystem_result" where
  "error_result msg = empty_result\<lparr>error := Some msg\<rparr>"

text \<open>\<^verbatim>\<open>result[key] += 1\<close> and \<^verbatim>\<open>result["updates"].append(u)\<close>, on keys the result holds.\<close>

definition incr :: "nat option \<Rightarrow> nat option" where
  "incr c = map_option Suc c"

definition append_update :: "update_info list option \<Rightarrow> update_info \<Rightarrow> update_info list option" where
  "append_update us u = map_option (\<lambda>l. l @ [u]) us"

record summary =
  s_total_rust_updates :: nat
  s_total_go_updates :: nat
  s_total_updates :: nat
  s_has_major_updates :: bool
  s_has_security_updates :: bool

text \<open>
  \<open>go_modules\<close> is a dict in insertion order; \<open>summary\<close> is \<open>None\<close> while it is still the
  empty dict \<^verbatim>\<open>{}\<close> the report starts with.
\<close>

record report =
  timestamp :: string
  project_root :: string
  rust :: ecosystem_result
  go_modules :: "(string \<times> ecosystem_result) list"
  summary :: "summary option"

text \<open>\<^verbatim>\<open>d[k] = v\<close> on a dict in insertion order.\<close>

fun dict_set :: "('k \<times> 'v) list \<Rightarrow> 'k \<Rightarrow> 'v \<Rightarrow> ('k \<times> 'v) list" where
  "dict_set [] k v = [(k, v)]"
| "dict_set ((k', v') # kvs) k v =
     (if k' = k then (k, v) # kvs else (k', v') # dict_set kvs k v)"

section \<open>The outside world\<close>

text \<open>
  A resolved path is the list of its components below the filesystem root.
\<close>

type_synonym path = "string list"

definition path_str :: "path \<Rightarrow> string" where
  "path_str p = (if p = [] then ''/'' else concat (map (\<lambda>c. CHR ''/'' # c) p))"

definition path_name :: "path \<Rightarrow> string" where
  "path_name p = (if p = [] then [] else last p)"

definition path_parent :: "path \<Rightarrow> path" where
  "path_parent p = butlast p"

text \<open>
  What \<^verbatim>\<open>subprocess.run(cmd, cwd, capture_output=True, text=True, timeout)\<close> can do: return
  a completed process, raise \<^verbatim>\<open>TimeoutExpired\<close>, or raise another \<^verbatim>\<open>Exception\<close> \<open>e\<close>, kept
  as \<^verbatim>\<open>str(e)\<close>. An interrupt delivered to the interpreter while it waits
  (\<^verbatim>\<open>KeyboardInterrupt\<close>) is not an outcome of the command and is outside the model.
\<close>

datatype run_outcome =
    Completed int string string
  | TimeoutExpired
  | RunFailed string

text \<open>
  Everything the script asks of its environment. Each question is asked at most once in
  a run, so a function of the question is as general as a changing world.
  \<open>resolve\<close> stands for \<^verbatim>\<open>Path(s).resolve()\<close> and \<open>path_exists\<close> for \<^verbatim>\<open>Path.exists()\<close>, both
  taken to answer.
  \<open>check_output\<close> stands for \<^verbatim>\<open>subprocess.check_output(cmd).decode()\<close>, \<open>json_loads\<close> for
  \<^verbatim>\<open>json.loads\<close> (\<open>None\<close> is \<^verbatim>\<open>JSONDecodeError\<close>), \<open>write_json\<close> for opening the file and
  \<^verbatim>\<open>json.dump\<close> (\<open>Some e\<close> is the exception raised).
\<close>

record world =
  resolve :: "string \<Rightarrow> path"
  path_exists :: "path \<Rightarrow> bool"
  subprocess_run :: "string list \<Rightarrow> path \<Rightarrow> nat \<Rightarrow> run_outcome"
  check_output :: "string list \<Rightarrow> exn + string"
  json_loads :: "string \<Rightarrow> json option"
  write_json :: "string \<Rightarrow> report \<Rightarrow> exn option"

text \<open>
  What a run does to the world, in order. The text of a printed line is kept as its
  kind and its parameters; the two renderings of a report (\<^verbatim>\<open>json.dumps\<close> and
  \<^verbatim>\<open>print_report\<close>) are one event each. \<open>Ran\<close> records a call of \<^verbatim>\<open>subprocess.run\<close> with its
  command, working directory and timeout.
\<close>

datatype message =
    AnalyzingRust
  | CargoOutdatedNotFound
  | AnalyzingGo string
  | ProjectRootNotFound string
  | ReportSavedTo string

datatype event =
    Printed message
  | PrintedJson report
  | PrintedHuman report
  | Ran "string list" path nat
  | RanCheckOutput "string list"
  | WroteFile string report

text \<open>A computation: the events it caused, then its value or the exception it raised.\<close>

type_synonym 'a io = "event list \<times> (exn + 'a)"

definition io_return :: "'a \<Rightarrow> 'a io" where
  "io_return x = ([], Inr x)"

definition io_raise :: "exn \<Rightarrow> 'a io" where
  "io_raise e = ([], Inl e)"

definition io_emit :: "event \<Rightarrow> unit io" where
  "io_emit ev = ([ev], Inr ())"

definition io_lift :: "exn + 'a \<Rightarrow> 'a io" where
  "io_lift r = ([], r)"

definition io_bind :: "'a io \<Rightarrow> ('a \<Rightarrow> 'b io) \<Rightarrow> 'b io" where
  "io_bind m f =
     (case m of
        (es, Inl e) \<Rightarrow> (es, Inl e)
      | (es, Inr x) \<Rightarrow> (case f x of (es', r) \<Rightarrow> (es @ es', r)))"

section \<open>Command runner\<close>

definition run_command :: "world \<Rightarrow> path \<Rightarrow> string list \<Rightarrow> path option \<Rightarrow> (int \<times> string \<times> string) io" where
  "run_command w self_root cmd cwd =
     (let dir = (case cwd of None \<Rightarrow> self_root | Some d \<Rightarrow> d) in
      io_bind (io_emit (Ran cmd dir 30)) (\<lambda>_.
        case subprocess_run w cmd dir 30 of
          Completed returncode out err \<Rightarrow> io_return (returncode, out, err)
        | TimeoutExpired \<Rightarrow> io_return (1, [], ''Command timed out'')
        | RunFailed msg \<Rightarrow> io_return (1, [], msg)))"

section \<open>Probe of the native manifest\<close>

text \<open>
  The body of the \<^verbatim>\<open>for dep in dependencies\<close> loop. The subscripts are evaluated in the
  order of the source; a missing key raises \<^verbatim>\<open>KeyError\<close>.
\<close>

definition cargo_step :: "json \<Rightarrow> ecosystem_result \<Rightarrow> exn + ecosystem_result" where
  "cargo_step dep result =
     bindE (py_getitem dep ''project'') (\<lambda>p0.
     bindE (py_getitem dep ''latest'') (\<lambda>l0.
       if py_ne p0 l0 then
         (let result1 = result\<lparr>outdated_count := incr (outdated_count result)\<rparr> in
          bindE (py_getitem dep ''project'') (\<lambda>p1.
          bindE (py_getitem dep ''latest'') (\<lambda>l1.
          let ct = determine_semver_change p1 l1 in
          bindE (py_getitem dep ''name'') (\<lambda>n.
          bindE (py_getitem dep ''project'') (\<lambda>p2.
          bindE (py_getitem dep ''latest'') (\<lambda>l2.
          bindE (py_get dep ''kind'' (JStr ''unknown'')) (\<lambda>k.
          let info = \<lparr>name = n, current = p2, latest = l2, change_type = ct, kind = Some k\<rparr>
          in Inr (result1\<lparr>updates := append_update (updates result1) info\<rparr>))))))))
       else Inr result))"

fun cargo_loop :: "json list \<Rightarrow> ecosystem_result \<Rightarrow> exn + ecosystem_result" where
  "cargo_loop [] result = Inr result"
| "cargo_loop (dep # deps) result = bindE (cargo_step dep result) (cargo_loop deps)"

text \<open>The body of the \<^verbatim>\<open>try\<close> of \<open>analyze_cargo_deps\<close>.\<close>

definition cargo_try :: "world \<Rightarrow> string \<Rightarrow> exn + ecosystem_result" where
  "cargo_try w out =
     bindE (case json_loads w out of None \<Rightarrow> Inl JSONDecodeError | Some d \<Rightarrow> Inr d) (\<lambda>data.
     bindE (py_get data ''dependencies'' (JArr [])) (\<lambda>dependencies.
     bindE (py_len dependencies) (\<lambda>n.
     bindE (py_iter dependencies) (\<lambda>deps.
       cargo_loop deps
         \<lparr>error = None, module_path = None, total_deps = Some n, outdated_count = Some 0,
          updates = Some [], security_advisories = Some []\<rparr>))))"

text \<open>\<^verbatim>\<open>except json.JSONDecodeError\<close>: any other exception of the body propagates.\<close>

definition analyze_cargo_deps :: "world \<Rightarrow> path \<Rightarrow> ecosystem_result io" where
  "analyze_cargo_deps w self_root =
     io_bind (io_emit (Printed AnalyzingRust)) (\<lambda>_.
     io_bind (run_command w self_root [''cargo'', ''outdated'', ''--version''] None) (\<lambda>(ret_code, _, _).
       if ret_code \<noteq> 0 then
         io_bind (io_emit (Printed CargoOutdatedNotFound)) (\<lambda>_.
           io_return (error_result ''cargo-outdated not installed''))
       else
         io_bind (run_command w self_root
                    [''cargo'', ''outdated'', ''--workspace'', ''--format'', ''json''] None)
           (\<lambda>(ret_code, out, err).
              if ret_code \<noteq> 0 then
                io_return (error_result (''Failed to run cargo outdated: '' @ err))
              else
                io_lift (case cargo_try w out of
                           Inl JSONDecodeError \<Rightarrow>
                             Inr (error_result ''Failed to parse cargo outdated output'')
                         | Inl e \<Rightarrow> Inl e
                         | Inr result \<Rightarrow> Inr result))))"

section \<open>Probe of a secondary module\<close>

text \<open>\<^verbatim>\<open>s.strip()\<close>\<close>

definition strip :: "string \<Rightarrow> string" where
  "strip s = rev (dropWhile isspace (rev (dropWhile isspace s)))"

text \<open>
  \<^verbatim>\<open>re.match(r'^(\S+)\s+(\S+)(?:\s+\[([^\]]+)\])?', line)\<close> and its three groups. Every
  repetition is greedy and followed by a character outside its class, so each group is
  the longest run; the last group is \<open>None\<close> when the optional part does not match.
\<close>

definition match_latest :: "string \<Rightarrow> string option" where
  "match_latest rest =
     (let ws = takeWhile isspace rest; r1 = dropWhile isspace rest in
      if ws = [] then None
      else (case r1 of
              [] \<Rightarrow> None
            | c # r2 \<Rightarrow>
                if c \<noteq> CHR ''['' then None
                else (let g3 = takeWhile (\<lambda>c. c \<noteq> CHR '']'') r2;
                          r3 = dropWhile (\<lambda>c. c \<noteq> CHR '']'') r2
                      in if g3 = [] \<or> r3 = [] then None else Some g3)))"

definition go_match :: "string \<Rightarrow> (string \<times> string \<times> string option) option" where
  "go_match line =
     (let g1 = takeWhile (\<lambda>c. \<not> isspace c) line;
          r1 = dropWhile (\<lambda>c. \<not> isspace c) line;
          ws = takeWhile isspace r1;
          r2 = dropWhile isspace r1;
          g2 = takeWhile (\<lambda>c. \<not> isspace c) r2;
          r3 = dropWhile (\<lambda>c. \<not> isspace c) r2
      in if g1 = [] \<or> ws = [] \<or> g2 = [] then None
         else Some (g1, g2, match_latest r3))"

text \<open>The body of the \<^verbatim>\<open>for line in ...\<close> loop.\<close>

definition go_line :: "ecosystem_result \<Rightarrow> string \<Rightarrow> ecosystem_result" where
  "go_line result line =
     (if line = [] then result
      else
        (let result1 = result\<lparr>total_deps := incr (total_deps result)\<rparr> in
         case go_match line of
           None \<Rightarrow> result1
         | Some (module_name, current_version, latest_version) \<Rightarrow>
             (case latest_version of
                None \<Rightarrow> result1
              | Some lv \<Rightarrow>
                  if lv \<noteq> [] \<and> lv \<noteq> current_version then
                    (let result2 = result1\<lparr>outdated_count := incr (outdated_count result1)\<rparr>;
                         ct = determine_semver_change (JStr current_version) (JStr lv);
                         info = \<lparr>name = JStr module_name, current = JStr current_version,
                                 latest = JStr lv, change_type = ct, kind = None\<rparr>
                     in result2\<lparr>updates := append_update (updates result2) info\<rparr>)
                  else result1)))"

definition analyze_go_deps :: "world \<Rightarrow> path \<Rightarrow> path \<Rightarrow> ecosystem_result io" where
  "analyze_go_deps w self_root module_dir =
     (if \<not> path_exists w (module_dir @ [''go.mod'']) then
        io_return (error_result ''go.mod not found'')
      else
        io_bind (io_emit (Printed (AnalyzingGo (path_name module_dir)))) (\<lambda>_.
        io_bind (run_command w self_root [''go'', ''list'', ''-u'', ''-m'', ''all'']
                   (Some module_dir))
          (\<lambda>(ret_code, out, err).
             if ret_code \<noteq> 0 then
               io_return (error_result (''Failed to run go list: '' @ err))
             else
               io_return
                 (foldl go_line
                    \<lparr>error = None, module_path = Some (path_str module_dir),
                     total_deps = Some 0, outdated_count = Some 0, updates = Some [],
                     security_advisories = None\<rparr>
                    (split_on (CHR 0x0A) (strip out))))))"

section \<open>Report builder and entry point\<close>

text \<open>\<^verbatim>\<open>d.get("outdated_count", 0)\<close> and \<^verbatim>\<open>d.get("updates", [])\<close>\<close>

definition get_outdated_count :: "ecosystem_result \<Rightarrow> nat" where
  "get_outdated_count d = (case outdated_count d of None \<Rightarrow> 0 | Some n \<Rightarrow> n)"

definition get_updates :: "ecosystem_result \<Rightarrow> update_info list" where
  "get_updates d = (case updates d of None \<Rightarrow> [] | Some us \<Rightarrow> us)"

definition has_major_updates :: "report \<Rightarrow> bool" where
  "has_major_updates rep =
     (if list_ex (\<lambda>u. change_type u = ''major'') (get_updates (rust rep)) then True
      else list_ex (\<lambda>m. list_ex (\<lambda>u. change_type u = ''major'') (get_updates m))
             (map snd (go_modules rep)))"

definition has_security_updates :: "report \<Rightarrow> bool" where
  "has_security_updates rep = False"

text \<open>The loop over the two module directories.\<close>

definition module_name_of :: "path \<Rightarrow> string" where
  "module_name_of module_dir =
     path_name (path_parent module_dir) @ ''/'' @ path_name module_dir"

fun go_modules_loop :: "world \<Rightarrow> path \<Rightarrow> path list \<Rightarrow> report \<Rightarrow> report io" where
  "go_modules_loop w self_root [] rep = io_return rep"
| "go_modules_loop w self_root (module_dir # dirs) rep =
     (if path_exists w module_dir then
        io_bind (analyze_go_deps w self_root module_dir) (\<lambda>r.
          go_modules_loop w self_root dirs
            (rep\<lparr>go_modules := dict_set (go_modules rep) (module_name_of module_dir) r\<rparr>))
      else go_modules_loop w self_root dirs rep)"

definition date_cmd :: "string list" where
  "date_cmd = [''date'', ''+%Y-%m-%d %H:%M:%S'']"

text \<open>The three parts of \<open>generate_report\<close> after the timestamp, as its comments name them.\<close>

definition analyze_rust_dependencies :: "world \<Rightarrow> path \<Rightarrow> report \<Rightarrow> report io" where
  "analyze_rust_dependencies w self_root rep =
     (if path_exists w (self_root @ [''Cargo.toml'']) then
        io_bind (analyze_cargo_deps w self_root) (\<lambda>r. io_return (rep\<lparr>rust := r\<rparr>))
      else io_return rep)"

definition analyze_go_modules :: "world \<Rightarrow> path \<Rightarrow> report \<Rightarrow> report io" where
  "analyze_go_modules w self_root rep =
     go_modules_loop w self_root
       [self_root @ [''bindings'', ''go''], self_root @ [''examples'', ''goclient'']] rep"

definition generate_summary :: "report \<Rightarrow> report" where
  "generate_summary rep =
     (let total_rust_updates = get_outdated_count (rust rep);
          total_go_updates = sum_list (map (\<lambda>m. get_outdated_count m) (map snd (go_modules rep)))
      in rep\<lparr>summary := Some
              \<lparr>s_total_rust_updates = total_rust_updates,
               s_total_go_updates = total_go_updates,
               s_total_updates = total_rust_updates + total_go_updates,
               s_has_major_updates = has_major_updates rep,
               s_has_security_updates = has_security_updates rep\<rparr>\<rparr>)"

definition generate_report :: "world \<Rightarrow> path \<Rightarrow> report io" where
  "generate_report w self_root =
     io_bind (io_emit (RanCheckOutput date_cmd)) (\<lambda>_.
     io_bind (io_lift (check_output w date_cmd)) (\<lambda>stamp.
     io_bind (analyze_rust_dependencies w self_root
                \<lparr>timestamp = strip stamp, project_root = path_str self_root,
                 rust = empty_result, go_modules = [], summary = None\<rparr>) (\<lambda>rep1.
     io_bind (analyze_go_modules w self_root rep1) (\<lambda>rep2.
       io_return (generate_summary rep2)))))"

text \<open>The command line as \<^verbatim>\<open>argparse\<close> returns it.\<close>

record args =
  arg_output :: string
  arg_save :: "string option"
  arg_project_root :: string

definition main :: "args \<Rightarrow> world \<Rightarrow> unit io" where
  "main a w =
     (let root = resolve w (arg_project_root a) in
      if \<not> path_exists w root then
        io_bind (io_emit (Printed (ProjectRootNotFound (path_str root)))) (\<lambda>_.
          io_raise (SystemExit 1))
      else
        io_bind (generate_report w root) (\<lambda>rep.
        io_bind (if arg_output a = ''json'' then io_emit (PrintedJson rep)
                 else io_emit (PrintedHuman rep)) (\<lambda>_.
        io_bind (case arg_save a of
                   None \<Rightarrow> io_return ()
                 | Some file \<Rightarrow>
                     if file = [] then io_return ()
                     else
                       io_bind (io_emit (WroteFile file rep)) (\<lambda>_.
                       io_bind (io_lift (case write_json w file rep of
                                           None \<Rightarrow> Inr () | Some e \<Rightarrow> Inl e)) (\<lambda>_.
                         io_emit (Printed (ReportSavedTo file))))) (\<lambda>_.
        io_bind (io_lift (case summary rep of
                            None \<Rightarrow> Inl (KeyError ''total_updates'')
                          | Some s \<Rightarrow> Inr (s_total_updates s))) (\<lambda>total.
          if 0 < total then io_raise (SystemExit 1) else io_return ())))))"

text \<open>
  The exit status of the process running \<open>main\<close>: 0 on return, the argument of
  \<^verbatim>\<open>sys.exit\<close>, and 1 when the interpreter ends on an uncaught exception.
\<close>

definition exit_code :: "unit io \<Rightarrow> int" where
  "exit_code r = (case snd r of Inr _ \<Rightarrow> 0 | Inl (SystemExit n) \<Rightarrow> n | Inl _ \<Rightarrow> 1)"

section \<open>Notions of the specification\<close>

text \<open>
  The lines the secondary probe visits, \<^verbatim>\<open>stdout.strip().split('\n')\<close>, and the two counts
  the specification speaks of: the lines that match the pattern and the lines that are
  not empty.
\<close>

definition output_lines :: "string \<Rightarrow> string list" where
  "output_lines out = split_on (CHR 0x0A) (strip out)"

definition matching_lines :: "string \<Rightarrow> nat" where
  "matching_lines out = length (filter (\<lambda>l. go_match l \<noteq> None) (output_lines out))"

definition nonempty_lines :: "string \<Rightarrow> nat" where
  "nonempty_lines out = length (filter (\<lambda>l. l \<noteq> []) (output_lines out))"

text \<open>
  The update a line of the secondary tool stands for: the line matches, carries a latest
  version, and that version differs from the current one.
\<close>

definition go_update_of :: "string \<Rightarrow> update_info option" where
  "go_update_of line =
     (case go_match line of
        Some (n, c, Some l) \<Rightarrow>
          if l \<noteq> c then
            Some \<lparr>name = JStr n, current = JStr c, latest = JStr l,
                  change_type = determine_semver_change (JStr c) (JStr l), kind = None\<rparr>
          else None
      | _ \<Rightarrow> None)"

text \<open>
  The update an entry of the native tool stands for: its declared and latest versions
  differ (\<open>cargo_differs\<close>) and it has a name; \<open>kind\<close> defaults to \<^verbatim>\<open>unknown\<close>.
\<close>

definition cargo_differs :: "json \<Rightarrow> bool" where
  "cargo_differs dep =
     (case (py_getitem dep ''project'', py_getitem dep ''latest'') of
        (Inr p, Inr l) \<Rightarrow> py_ne p l
      | _ \<Rightarrow> False)"

definition cargo_update_of :: "json \<Rightarrow> update_info option" where
  "cargo_update_of dep =
     (case (py_getitem dep ''project'', py_getitem dep ''latest'', py_getitem dep ''name'',
            py_get dep ''kind'' (JStr ''unknown'')) of
        (Inr p, Inr l, Inr n, Inr k) \<Rightarrow>
          if py_ne p l then
            Some \<lparr>name = n, current = p, latest = l,
                  change_type = determine_semver_change p l, kind = Some k\<rparr>
          else None
      | _ \<Rightarrow> None)"

text \<open>
  What can go wrong with an entry of the native tool that is a JSON object: it lacks
  \<^verbatim>\<open>project\<close> or \<^verbatim>\<open>latest\<close>, or its versions differ and it lacks \<^verbatim>\<open>name\<close>.
\<close>

definition is_obj :: "json \<Rightarrow> bool" where
  "is_obj d = (case d of JObj kvs \<Rightarrow> True | _ \<Rightarrow> False)"

definition cargo_entry_raises :: "json \<Rightarrow> bool" where
  "cargo_entry_raises dep =
     (case dep of
        JObj kvs \<Rightarrow>
          map_of kvs ''project'' = None \<or> map_of kvs ''latest'' = None
          \<or> (cargo_differs dep \<and> map_of kvs ''name'' = None)
      | _ \<Rightarrow> False)"


text \<open>A result that carries an error carries no count and no updates.\<close>

definition errors_count_nothing :: "ecosystem_result \<Rightarrow> bool" where
  "errors_count_nothing m = (error m \<noteq> None \<longrightarrow> outdated_count m = None \<and> updates m = None)"

section \<open>Concrete worlds\<close>

text \<open>
  A repository at \<^verbatim>\<open>/repo\<close> with no manifest, in which no command can be launched, the
  date utility answers and files can be written.
\<close>

definition bare_world :: world where
  "bare_world =
     \<lparr>resolve = (\<lambda>_. [''repo'']),
      path_exists = (\<lambda>p. p = [''repo'']),
      subprocess_run = (\<lambda>_ _ _. RunFailed ''No such file or directory''),
      check_output = (\<lambda>_. Inr ''2025-01-01 00:00:00''),
      json_loads = (\<lambda>_. None),
      write_json = (\<lambda>_ _. None)\<rparr>"

text \<open>
  A repository whose only manifest is \<^verbatim>\<open>bindings/go/go.mod\<close>; the module tool prints a
  warning, a module with an update and a module without.
\<close>

definition go_output :: string where
  "go_output = ''WARNING'' @ [CHR 0x0A] @ ''example.com/foo v1.0.0 [v2.0.0]'' @ [CHR 0x0A]
               @ ''example.com/bar v1.2.3'' @ [CHR 0x0A]"

definition go_world :: world where
  "go_world = bare_world
     \<lparr>path_exists := (\<lambda>p. p = [''repo''] \<or> p = [''repo'', ''bindings'', ''go'']
                           \<or> p = [''repo'', ''bindings'', ''go'', ''go.mod'']),
      subprocess_run := (\<lambda>cmd dir t.
         if cmd = [''go'', ''list'', ''-u'', ''-m'', ''all''] \<and> dir = [''repo'', ''bindings'', ''go'']
         then Completed 0 go_output [] else RunFailed ''No such file or directory'')\<rparr>"

text \<open>
  A repository whose only manifest is \<^verbatim>\<open>Cargo.toml\<close>; the tool reports one outdated
  dependency and one entry that has no name and is up to date.
\<close>

definition cargo_output :: string where
  \<open>cargo_output = ''{"dependencies": [{"name": "serde", "project": "1.0.0", "latest": "1.1.0", "kind": "Normal"}, {"project": "0.3.0", "latest": "0.3.0"}]}''\<close>

definition serde_entry :: json where
  "serde_entry = JObj [(''name'', JStr ''serde''), (''project'', JStr ''1.0.0''),
                       (''latest'', JStr ''1.1.0''), (''kind'', JStr ''Normal'')]"

definition nameless_entry :: json where
  "nameless_entry = JObj [(''project'', JStr ''0.3.0''), (''latest'', JStr ''0.3.0'')]"

definition cargo_data :: json where
  "cargo_data = JObj [(''dependencies'', JArr [serde_entry, nameless_entry])]"

definition cargo_world :: world where
  "cargo_world = bare_world
     \<lparr>path_exists := (\<lambda>p. p = [''repo''] \<or> p = [''repo'', ''Cargo.toml'']),
      subprocess_run := (\<lambda>cmd dir t.
         if cmd = [''cargo'', ''outdated'', ''--version''] then Completed 0 ''cargo-outdated'' []
         else if cmd = [''cargo'', ''outdated'', ''--workspace'', ''--format'', ''json'']
         then Completed 0 cargo_output []
         else RunFailed ''No such file or directory''),
      json_loads := (\<lambda>s. if s = cargo_output then Some cargo_data else None)\<rparr>"

definition go_result :: ecosystem_result where
  "go_result =
     \<lparr>error = None, module_path = Some ''/repo/bindings/go'', total_deps = Some 3,
      outdated_count = Some 1,
      updates = Some [\<lparr>name = JStr ''example.com/foo'', current = JStr ''v1.0.0'',
                        latest = JStr ''v2.0.0'', change_type = ''major'', kind = None\<rparr>],
      security_advisories = None\<rparr>"

definition cargo_result :: ecosystem_result where
  "cargo_result =
     \<lparr>error = None, module_path = None, total_deps = Some 2, outdated_count = Some 1,
      updates = Some [\<lparr>name = JStr ''serde'', current = JStr ''1.0.0'', latest = JStr ''1.1.0'',
                        change_type = ''minor'', kind = Some (JStr ''Normal'')\<rparr>],
      security_advisories = Some []\<rparr>"

text \<open>
  The same repository when the tool reports an entry without \<^verbatim>\<open>kind\<close> and then an entry
  without \<^verbatim>\<open>latest\<close>.
\<close>

definition kindless_entry :: json where
  "kindless_entry = JObj [(''name'', JStr ''tokio''), (''project'', JStr ''1.0.0''),
                          (''latest'', JStr ''1.2.0'')]"

definition latestless_entry :: json where
  "latestless_entry = JObj [(''name'', JStr ''serde''), (''project'', JStr ''1.0.0'')]"

definition broken_data :: json where
  "broken_data = JObj [(''dependencies'', JArr [kindless_entry, latestless_entry])]"

definition broken_cargo_world :: world where
  "broken_cargo_world = cargo_world\<lparr>json_loads := (\<lambda>_. Some broken_data)\<rparr>"

text \<open>The reports of the repositories above, and the command lines used on them.\<close>

definition go_report :: report where
  "go_report =
     \<lparr>timestamp = ''2025-01-01 00:00:00'', project_root = ''/repo'', rust = empty_result,
      go_modules = [(''bindings/go'', go_result)],
      summary = Some \<lparr>s_total_rust_updates = 0, s_total_go_updates = 1, s_total_updates = 1,
                       s_has_major_updates = True, s_has_security_updates = False\<rparr>\<rparr>"

definition bare_report :: report where
  "bare_report =
     \<lparr>timestamp = ''2025-01-01 00:00:00'', project_root = ''/repo'', rust = empty_result,
      go_modules = [],
      summary = Some \<lparr>s_total_rust_updates = 0, s_total_go_updates = 0, s_total_updates = 0,
                       s_has_major_updates = False, s_has_security_updates = False\<rparr>\<rparr>"


definition human_args :: args where
  "human_args = \<lparr>arg_output = ''human'', arg_save = None, arg_project_root = ''.''\<rparr>"

definition save_args :: args where
  "save_args = \<lparr>arg_output = ''json'', arg_save = Some ''report.json'', arg_project_root = ''.''\<rparr>"

text \<open>A world without the project root.\<close>

definition rootless_world :: world where
  "rootless_world = bare_world\<lparr>path_exists := (\<lambda>_. False)\<rparr>"

text \<open>
  The repository with \<^verbatim>\<open>Cargo.toml\<close> and both module directories when every command
  times out (so \<^verbatim>\<open>cargo outdated\<close> counts as not installed), and its report.
\<close>

definition stalled_world :: world where
  "stalled_world = cargo_world
     \<lparr>path_exists := (\<lambda>_. True), subprocess_run := (\<lambda>_ _ _. TimeoutExpired)\<rparr>"

definition stalled_report :: report where
  "stalled_report =
     \<lparr>timestamp = ''2025-01-01 00:00:00'', project_root = ''/repo'',
      rust = error_result ''cargo-outdated not installed'',
      go_modules =
        [(''bindings/go'', error_result ''Failed to run go list: Command timed out''),
         (''examples/goclient'', error_result ''Failed to run go list: Command timed out'')],
      summary = Some \<lparr>s_total_rust_updates = 0, s_total_go_updates = 0, s_total_updates = 0,
                       s_has_major_updates = False, s_has_security_updates = False\<rparr>\<rparr>"

text \<open>Worlds in which the date utility fails, and in which the report cannot be written.\<close>

definition dateless_world :: world where
  "dateless_world = bare_world\<lparr>check_output := (\<lambda>_. Inl CalledProcessError)\<rparr>"

definition readonly_world :: world where
  "readonly_world = cargo_world\<lparr>write_json := (\<lambda>_ _. Some (OSError ''Permission denied''))\<rparr>"

definition timeout_world :: world where
  "timeout_world = bare_world\<lparr>subprocess_run := (\<lambda>_ _ _. TimeoutExpired)\<rparr>"

definition exit3_world :: world where
  "exit3_world = bare_world\<lparr>subprocess_run := (\<lambda>_ _ _. Completed 3 ''out'' ''err'')\<rparr>"

section \<open>Properties of the version classifier\<close>

lemma pad3_eq: "pad3 r = r @ replicate (3 - length r) 0"
proof (induction r rule: pad3.induct)
  case (1 result)
  show ?case
  proof (cases "length result < 3")
    case True
    then have "pad3 result = pad3 (result @ [0])"
      by (simp add: pad3.simps [of result])
    also have "\<dots> = (result @ [0]) @ replicate (3 - length (result @ [0])) 0"
      using "1" True by simp
    also have "\<dots> = result @ replicate (3 - length result) 0"
      using True by (simp add: replicate_app_Cons_same Suc_diff_Suc flip: replicate_Suc)
    finally show ?thesis .
  next
    case False
    then show ?thesis by (simp add: pad3.simps [of result])
  qed
qed

lemma length_pad3: "length (take 3 (pad3 r)) = 3"
  by (simp add: pad3_eq)

lemma digits_value_nonneg:
  "0 \<le> acc \<Longrightarrow> list_all isdigit ds \<Longrightarrow> 0 \<le> foldl (\<lambda>n c. 10 * n + digit_val c) acc ds"
proof (induction ds arbitrary: acc)
  case Nil
  then show ?case by simp
next
  case (Cons d ds)
  from Cons.prems have "0 \<le> digit_val d"
    by (simp add: isdigit_def digit_val_def)
  with Cons.prems have "0 \<le> 10 * acc + digit_val d"
    by simp
  with Cons show ?case by simp
qed

lemma parse_part_nonneg: "0 \<le> parse_part part"
proof -
  have "list_all isdigit (takeWhile isdigit part)"
    by (simp add: list_all_iff) (meson set_takeWhileD)
  then have "0 \<le> foldl (\<lambda>n c. 10 * n + digit_val c) 0 (takeWhile isdigit part)"
    by (rule digits_value_nonneg [rotated]) simp
  then show ?thesis
    by (simp add: parse_part_def match_digits_def py_int_def Let_def)
qed

lemma list3_cases:
  assumes "length (xs :: int list) = 3"
  obtains a b c where "xs = [a, b, c]"
proof -
  from assms obtain a ys where 1: "xs = a # ys" and "length ys = 2"
    by (cases xs) auto
  then obtain b zs where 2: "ys = b # zs" and "length zs = 1"
    by (cases ys) auto
  then obtain c where "zs = [c]"
    by (cases zs) auto
  with 1 2 show ?thesis using that by simp
qed

lemma parse_version_str:
  "\<exists>a b c. parse_version (JStr s) = Inr [a, b, c] \<and> 0 \<le> a \<and> 0 \<le> b \<and> 0 \<le> c"
proof -
  define parts where "parts = take 3 (split_on CHR ''.'' (lstrip_v s))"
  define t where "t = take 3 (pad3 (map parse_part parts))"
  have pv: "parse_version (JStr s) = Inr t"
    by (simp add: parse_version_def t_def parts_def)
  have "length t = 3"
    unfolding t_def by (rule length_pad3)
  then obtain a b c where abc: "t = [a, b, c]"
    by (rule list3_cases)
  have "\<forall>x \<in> set t. 0 \<le> x"
    unfolding t_def pad3_eq
    by (auto dest!: in_set_takeD simp: parse_part_nonneg)
  with abc have "0 \<le> a \<and> 0 \<le> b \<and> 0 \<le> c"
    by simp
  with pv abc show ?thesis by simp
qed

lemma pad3_short:
  "pad3 [] = [0, 0, 0]" "pad3 [a] = [a, 0, 0]" "pad3 [a, b] = [a, b, 0]"
  "pad3 (a # b # c # r) = a # b # c # r"
  by (simp_all add: pad3_eq numeral_2_eq_2 numeral_3_eq_3)

lemmas version_eval =
  parse_version_def lstrip_v_def parse_part_def match_digits_def isdigit_def py_int_def
  int_max_str_digits_def digit_val_def pad3_short

lemmas semver_eval =
  determine_semver_change_def semver_try_def bindE_def tuple_get_def

text \<open>
  C2. \<open>parse_version\<close> is total on strings: whatever the string, it raises nothing and
  returns a tuple of exactly three integers, none of them negative; on the four inputs of
  the specification it returns (2,3,4), (1,2,0), (3,0,0) and (0,0,0).
\<close>

theorem parse_version_total:
  "(\<exists>a b c. parse_version (JStr s) = Inr [a, b, c] \<and> 0 \<le> a \<and> 0 \<le> b \<and> 0 \<le> c)
   \<and> parse_version (JStr ''v2.3.4'') = Inr [2, 3, 4]
   \<and> parse_version (JStr ''1.2'') = Inr [1, 2, 0]
   \<and> parse_version (JStr ''3.0.0-alpha'') = Inr [3, 0, 0]
   \<and> parse_version (JStr ''abc'') = Inr [0, 0, 0]"
proof -
  have "parse_version (JStr ''v2.3.4'') = Inr [2, 3, 4]"
    by (simp add: version_eval)
  moreover have "parse_version (JStr ''1.2'') = Inr [1, 2, 0]"
    by (simp add: version_eval)
  moreover have "parse_version (JStr ''3.0.0-alpha'') = Inr [3, 0, 0]"
    by (simp add: version_eval)
  moreover have "parse_version (JStr ''abc'') = Inr [0, 0, 0]"
    by (simp add: version_eval)
  ultimately show ?thesis
    using parse_version_str [of s] by blast
qed

text \<open>
  C1. For all version strings, \<open>determine_semver_change\<close> parses both with
  \<open>parse_version\<close> and answers by the first component of the two triples that differs:
  major, else minor, else patch, else other (never unknown); the four examples of the
  specification evaluate as stated.
\<close>

theorem determine_semver_change_classifies:
  "(\<exists>a1 b1 c1 a2 b2 c2.
      parse_version (JStr cur) = Inr [a1, b1, c1] \<and>
      parse_version (JStr lat) = Inr [a2, b2, c2] \<and>
      determine_semver_change (JStr cur) (JStr lat) =
        (if a1 \<noteq> a2 then ''major''
         else if b1 \<noteq> b2 then ''minor''
         else if c1 \<noteq> c2 then ''patch''
         else ''other''))
   \<and> determine_semver_change (JStr ''1.2.3'') (JStr ''2.0.0'') = ''major''
   \<and> determine_semver_change (JStr ''1.2.3'') (JStr ''1.3.0'') = ''minor''
   \<and> determine_semver_change (JStr ''1.2.3'') (JStr ''1.2.9'') = ''patch''
   \<and> determine_semver_change (JStr ''1.2.3'') (JStr ''1.2.3'') = ''other''"
proof -
  obtain a1 b1 c1 where p1: "parse_version (JStr cur) = Inr [a1, b1, c1]"
    using parse_version_str [of cur] by blast
  obtain a2 b2 c2 where p2: "parse_version (JStr lat) = Inr [a2, b2, c2]"
    using parse_version_str [of lat] by blast
  have "determine_semver_change (JStr cur) (JStr lat) =
        (if a1 \<noteq> a2 then ''major''
         else if b1 \<noteq> b2 then ''minor''
         else if c1 \<noteq> c2 then ''patch''
         else ''other'')"
    by (simp add: semver_eval p1 p2)
  with p1 p2 have general: "\<exists>a1 b1 c1 a2 b2 c2.
      parse_version (JStr cur) = Inr [a1, b1, c1] \<and>
      parse_version (JStr lat) = Inr [a2, b2, c2] \<and>
      determine_semver_change (JStr cur) (JStr lat) =
        (if a1 \<noteq> a2 then ''major''
         else if b1 \<noteq> b2 then ''minor''
         else if c1 \<noteq> c2 then ''patch''
         else ''other'')"
    by blast
  have v123: "parse_version (JStr ''1.2.3'') = Inr [1, 2, 3]"
    by (simp add: version_eval)
  have v200: "parse_version (JStr ''2.0.0'') = Inr [2, 0, 0]"
    by (simp add: version_eval)
  have v130: "parse_version (JStr ''1.3.0'') = Inr [1, 3, 0]"
    by (simp add: version_eval)
  have v129: "parse_version (JStr ''1.2.9'') = Inr [1, 2, 9]"
    by (simp add: version_eval)
  have "determine_semver_change (JStr ''1.2.3'') (JStr ''2.0.0'') = ''major''"
    by (simp add: semver_eval v123 v200)
  moreover have "determine_semver_change (JStr ''1.2.3'') (JStr ''1.3.0'') = ''minor''"
    by (simp add: semver_eval v123 v130)
  moreover have "determine_semver_change (JStr ''1.2.3'') (JStr ''1.2.9'') = ''patch''"
    by (simp add: semver_eval v123 v129)
  moreover have "determine_semver_change (JStr ''1.2.3'') (JStr ''1.2.3'') = ''other''"
    by (simp add: semver_eval v123)
  ultimately show ?thesis
    using general by blast
qed

text \<open>
  C3, as stated, fails: two leading \<^verbatim>\<open>v\<close> do not leave a first segment that parses to 0.
\<close>

theorem parse_version_double_v_counterexample:
  "parse_version (JStr ''vv2.3.4'') \<noteq> Inr [0, 3, 4]"
  by (simp add: version_eval)

text \<open>
  C3, amended. \<open>parse_version\<close> strips every leading \<^verbatim>\<open>v\<close> before it splits on the dot:
  any number of them in front of a string changes nothing, and \<^verbatim>\<open>vv2.3.4\<close> parses to
  (2,3,4).
\<close>

theorem parse_version_strips_every_v:
  "parse_version (JStr (replicate n (CHR ''v'') @ s)) = parse_version (JStr s)
   \<and> parse_version (JStr ''vv2.3.4'') = Inr [2, 3, 4]"
proof -
  have "lstrip_v (replicate n (CHR ''v'') @ s) = lstrip_v s"
    by (induction n) (simp_all add: lstrip_v_def)
  then have "parse_version (JStr (replicate n (CHR ''v'') @ s)) = parse_version (JStr s)"
    by (simp add: parse_version_def)
  moreover have "parse_version (JStr ''vv2.3.4'') = Inr [2, 3, 4]"
    by (simp add: version_eval)
  ultimately show ?thesis by simp
qed

section \<open>Properties of the command runner\<close>

lemma run_command_eq:
  "run_command w r cmd cwd =
     ([Ran cmd (case cwd of None \<Rightarrow> r | Some d \<Rightarrow> d) 30],
      Inr (case subprocess_run w cmd (case cwd of None \<Rightarrow> r | Some d \<Rightarrow> d) 30 of
             Completed rc out err \<Rightarrow> (rc, out, err)
           | TimeoutExpired \<Rightarrow> (1, [], ''Command timed out'')
           | RunFailed msg \<Rightarrow> (1, [], msg)))"
  by (simp add: run_command_def io_bind_def io_emit_def io_return_def Let_def
           split: run_outcome.split)

text \<open>
  C8. \<open>run_command\<close> never raises: for every command and optional working directory it
  runs the process once under the bound 30 and returns a triple. A timeout gives the
  code 1, empty output and the message \<^verbatim>\<open>Command timed out\<close>; any other exception gives
  the code 1, empty output and the text of the exception; a completed process gives its
  own code and outputs.
\<close>

theorem run_command_never_raises:
  "(\<exists>rc out err. snd (run_command w r cmd cwd) = Inr (rc, out, err))
   \<and> fst (run_command w r cmd cwd) = [Ran cmd (case cwd of None \<Rightarrow> r | Some d \<Rightarrow> d) 30]
   \<and> (subprocess_run w cmd (case cwd of None \<Rightarrow> r | Some d \<Rightarrow> d) 30 = TimeoutExpired
        \<longrightarrow> snd (run_command w r cmd cwd) = Inr (1, [], ''Command timed out''))
   \<and> (\<forall>msg. subprocess_run w cmd (case cwd of None \<Rightarrow> r | Some d \<Rightarrow> d) 30 = RunFailed msg
        \<longrightarrow> snd (run_command w r cmd cwd) = Inr (1, [], msg))
   \<and> (\<forall>rc out err.
         subprocess_run w cmd (case cwd of None \<Rightarrow> r | Some d \<Rightarrow> d) 30 = Completed rc out err
        \<longrightarrow> snd (run_command w r cmd cwd) = Inr (rc, out, err))"
  by (cases "subprocess_run w cmd (case cwd of None \<Rightarrow> r | Some d \<Rightarrow> d) 30")
     (simp_all add: run_command_eq)

theorem run_command_never_raises_witness:
  "subprocess_run timeout_world [''go'', ''list''] [''repo''] 30 = TimeoutExpired
   \<and> snd (run_command timeout_world [''repo''] [''go'', ''list''] None)
       = Inr (1, [], ''Command timed out'')
   \<and> subprocess_run bare_world [''go'', ''list''] [''repo'', ''bindings'', ''go''] 30
       = RunFailed ''No such file or directory''
   \<and> snd (run_command bare_world [''repo''] [''go'', ''list''] (Some [''repo'', ''bindings'', ''go'']))
       = Inr (1, [], ''No such file or directory'')
   \<and> subprocess_run exit3_world [''go'', ''list''] [''repo''] 30 = Completed 3 ''out'' ''err''
   \<and> snd (run_command exit3_world [''repo''] [''go'', ''list''] None) = Inr (3, ''out'', ''err'')"
proof -
  have t: "subprocess_run timeout_world [''go'', ''list''] [''repo''] 30 = TimeoutExpired"
    by (simp add: timeout_world_def bare_world_def)
  have f: "subprocess_run bare_world [''go'', ''list''] [''repo'', ''bindings'', ''go''] 30
           = RunFailed ''No such file or directory''"
    by (simp add: bare_world_def)
  have c: "subprocess_run exit3_world [''go'', ''list''] [''repo''] 30 = Completed 3 ''out'' ''err''"
    by (simp add: exit3_world_def bare_world_def)
  show ?thesis
    using t f c
      run_command_never_raises [of timeout_world "[''repo'']" "[''go'', ''list'']" None]
      run_command_never_raises [of bare_world "[''repo'']" "[''go'', ''list'']"
                                   "Some [''repo'', ''bindings'', ''go'']"]
      run_command_never_raises [of exit3_world "[''repo'']" "[''go'', ''list'']" None]
    by simp
qed

section \<open>Properties of the probe of a secondary module\<close>

lemma match_latest_nonempty: "match_latest r = Some l \<Longrightarrow> l \<noteq> []"
  by (auto simp: match_latest_def Let_def split: list.splits if_splits)

lemma go_match_latest_nonempty: "go_match line = Some (n, c, Some l) \<Longrightarrow> l \<noteq> []"
  by (auto simp: go_match_def Let_def split: if_splits dest: match_latest_nonempty)

lemma go_match_Nil: "go_match [] = None"
  by (simp add: go_match_def)

lemma go_update_of_Nil: "go_update_of [] = None"
  by (simp add: go_update_of_def go_match_Nil)

lemma go_line_eq:
  "go_line r line =
     (if line = [] then r
      else case go_update_of line of
             None \<Rightarrow> r\<lparr>total_deps := incr (total_deps r)\<rparr>
           | Some u \<Rightarrow> r\<lparr>total_deps := incr (total_deps r),
                          outdated_count := incr (outdated_count r),
                          updates := append_update (updates r) u\<rparr>)"
proof (cases "go_match line")
  case None
  then show ?thesis
    by (simp add: go_line_def go_update_of_def)
next
  case (Some m)
  obtain n c lo where m: "m = (n, c, lo)"
    by (cases m)
  show ?thesis
  proof (cases lo)
    case None
    with Some m show ?thesis
      by (simp add: go_line_def go_update_of_def)
  next
    case (Some l)
    with \<open>go_match line = Some m\<close> m have "l \<noteq> []"
      by (auto dest: go_match_latest_nonempty)
    with Some \<open>go_match line = Some m\<close> m show ?thesis
      by (simp add: go_line_def go_update_of_def Let_def)
  qed
qed

lemma foldl_go_line:
  "total_deps r = Some t \<Longrightarrow> outdated_count r = Some c \<Longrightarrow> updates r = Some us \<Longrightarrow>
   foldl go_line r ls =
     r\<lparr>total_deps := Some (t + length (filter (\<lambda>l. l \<noteq> []) ls)),
       outdated_count := Some (c + length (List.map_filter go_update_of ls)),
       updates := Some (us @ List.map_filter go_update_of ls)\<rparr>"
proof (induction ls arbitrary: r t c us)
  case Nil
  then show ?case by (simp add: map_filter_simps)
next
  case (Cons l ls)
  show ?case
  proof (cases "l = []")
    case True
    then have "go_line r l = r"
      by (simp add: go_line_eq)
    with True Cons show ?thesis
      by (simp add: map_filter_simps go_update_of_Nil)
  next
    case False
    show ?thesis
    proof (cases "go_update_of l")
      case None
      let ?r = "r\<lparr>total_deps := incr (total_deps r)\<rparr>"
      have "foldl go_line ?r ls =
            ?r\<lparr>total_deps := Some (Suc t + length (filter (\<lambda>l. l \<noteq> []) ls)),
               outdated_count := Some (c + length (List.map_filter go_update_of ls)),
               updates := Some (us @ List.map_filter go_update_of ls)\<rparr>"
        by (rule Cons.IH) (simp_all add: Cons.prems incr_def)
      moreover have "go_line r l = ?r"
        using False None by (simp add: go_line_eq)
      ultimately show ?thesis
        using False None by (simp add: map_filter_simps)
    next
      case (Some u)
      let ?r = "r\<lparr>total_deps := incr (total_deps r),
                   outdated_count := incr (outdated_count r),
                   updates := append_update (updates r) u\<rparr>"
      have "foldl go_line ?r ls =
            ?r\<lparr>total_deps := Some (Suc t + length (filter (\<lambda>l. l \<noteq> []) ls)),
               outdated_count := Some (Suc c + length (List.map_filter go_update_of ls)),
               updates := Some ((us @ [u]) @ List.map_filter go_update_of ls)\<rparr>"
        by (rule Cons.IH) (simp_all add: Cons.prems incr_def append_update_def)
      moreover have "go_line r l = ?r"
        using False Some by (simp add: go_line_eq)
      ultimately show ?thesis
        using False Some by (simp add: map_filter_simps)
    qed
  qed
qed

lemma analyze_go_success:
  assumes "snd (analyze_go_deps w root d) = Inr r" and "error r = None"
  shows "\<exists>out err.
           path_exists w (d @ [''go.mod'']) \<and>
           subprocess_run w [''go'', ''list'', ''-u'', ''-m'', ''all''] d 30 = Completed 0 out err \<and>
           r = \<lparr>error = None, module_path = Some (path_str d),
                total_deps = Some (nonempty_lines out),
                outdated_count = Some (length (List.map_filter go_update_of (output_lines out))),
                updates = Some (List.map_filter go_update_of (output_lines out)),
                security_advisories = None\<rparr>"
proof (cases "subprocess_run w [''go'', ''list'', ''-u'', ''-m'', ''all''] d 30")
  case (Completed rc out err)
  with assms show ?thesis
    by (auto simp: analyze_go_deps_def run_command_eq io_bind_def io_emit_def io_return_def
                   error_result_def empty_result_def foldl_go_line nonempty_lines_def
                   output_lines_def
             split: if_splits)
next
  case TimeoutExpired
  with assms show ?thesis
    by (auto simp: analyze_go_deps_def run_command_eq io_bind_def io_emit_def io_return_def
                   error_result_def empty_result_def split: if_splits)
next
  case (RunFailed msg)
  with assms show ?thesis
    by (auto simp: analyze_go_deps_def run_command_eq io_bind_def io_emit_def io_return_def
                   error_result_def empty_result_def split: if_splits)
qed

lemma matching_le_nonempty: "matching_lines out \<le> nonempty_lines out"
proof -
  have "length (filter (\<lambda>l. go_match l \<noteq> None) ls) \<le> length (filter (\<lambda>l. l \<noteq> []) ls)" for ls
    by (induction ls) (auto simp: go_match_Nil)
  then show ?thesis
    by (simp add: matching_lines_def nonempty_lines_def)
qed


lemma go_output_lines:
  "output_lines go_output = [''WARNING'', ''example.com/foo v1.0.0 [v2.0.0]'', ''example.com/bar v1.2.3'']"
  by (simp add: output_lines_def go_output_def strip_def isspace_def)

lemma go_world_run:
  "subprocess_run go_world [''go'', ''list'', ''-u'', ''-m'', ''all''] [''repo'', ''bindings'', ''go''] 30
     = Completed 0 go_output []"
  by (simp add: go_world_def bare_world_def)

lemma go_world_result:
  "snd (analyze_go_deps go_world [''repo''] [''repo'', ''bindings'', ''go'']) = Inr go_result"
proof -
  have v1: "parse_version (JStr ''v1.0.0'') = Inr [1, 0, 0]"
    by (simp add: version_eval)
  have v2: "parse_version (JStr ''v2.0.0'') = Inr [2, 0, 0]"
    by (simp add: version_eval)
  have ct: "determine_semver_change (JStr ''v1.0.0'') (JStr ''v2.0.0'') = ''major''"
    by (simp add: semver_eval v1 v2)
  have ex: "path_exists go_world [''repo'', ''bindings'', ''go'', ''go.mod'']"
    by (simp add: go_world_def bare_world_def)
  have ls: "split_on (CHR 0x0A) (strip go_output)
            = [''WARNING'', ''example.com/foo v1.0.0 [v2.0.0]'', ''example.com/bar v1.2.3'']"
    using go_output_lines by (simp add: output_lines_def)
  have l1: "go_match ''WARNING'' = None"
    by (simp add: go_match_def isspace_def)
  have l2: "go_match ''example.com/foo v1.0.0 [v2.0.0]''
            = Some (''example.com/foo'', ''v1.0.0'', Some ''v2.0.0'')"
    by (simp add: go_match_def match_latest_def isspace_def)
  have l3: "go_match ''example.com/bar v1.2.3'' = Some (''example.com/bar'', ''v1.2.3'', None)"
    by (simp add: go_match_def match_latest_def isspace_def)
  show ?thesis
    by (simp add: analyze_go_deps_def run_command_eq io_bind_def io_emit_def io_return_def
                  ex go_world_run ls go_line_def l1 l2 l3 ct incr_def append_update_def
                  path_str_def go_result_def)
qed

lemma go_output_counts: "matching_lines go_output = 2 \<and> nonempty_lines go_output = 3"
proof -
  have l1: "go_match ''WARNING'' = None"
    by (simp add: go_match_def isspace_def)
  have l2: "go_match ''example.com/foo v1.0.0 [v2.0.0]''
            = Some (''example.com/foo'', ''v1.0.0'', Some ''v2.0.0'')"
    by (simp add: go_match_def match_latest_def isspace_def)
  have l3: "go_match ''example.com/bar v1.2.3'' = Some (''example.com/bar'', ''v1.2.3'', None)"
    by (simp add: go_match_def match_latest_def isspace_def)
  show ?thesis
    by (simp add: matching_lines_def nonempty_lines_def go_output_lines l1 l2 l3)
qed

text \<open>
  C6, as stated, fails: \<open>total_deps\<close> is not the number of lines that match the pattern.
  On an output of three lines whose first, \<^verbatim>\<open>WARNING\<close>, does not match, the probe
  succeeds with \<open>total_deps\<close> 3 while two lines match.
\<close>

theorem go_total_deps_counterexample:
  "subprocess_run go_world [''go'', ''list'', ''-u'', ''-m'', ''all''] [''repo'', ''bindings'', ''go''] 30
     = Completed 0 go_output []
   \<and> snd (analyze_go_deps go_world [''repo''] [''repo'', ''bindings'', ''go'']) = Inr go_result
   \<and> error go_result = None
   \<and> total_deps go_result = Some 3
   \<and> matching_lines go_output = 2"
  by (simp add: go_world_run go_world_result go_output_counts) (simp add: go_result_def)

text \<open>
  C6, amended. In the probe of a secondary module a line that does not match the pattern
  adds no update and leaves \<open>outdated_count\<close> alone, but it is counted: \<open>total_deps\<close> is
  incremented for every non-empty line before the pattern is tried. On every successful
  run \<open>total_deps\<close> is the number of non-empty lines of the stripped output, which is at
  least the number of matching lines, and the updates come from matching lines only.
\<close>

theorem go_total_deps_counts_nonempty_lines:
  assumes "snd (analyze_go_deps w root d) = Inr r" and "error r = None"
  shows "(\<exists>out err.
            subprocess_run w [''go'', ''list'', ''-u'', ''-m'', ''all''] d 30 = Completed 0 out err
          \<and> total_deps r = Some (nonempty_lines out)
          \<and> matching_lines out \<le> nonempty_lines out
          \<and> updates r = Some (List.map_filter go_update_of (output_lines out)))
       \<and> (\<forall>r0 line. go_match line = None \<and> line \<noteq> []
             \<longrightarrow> go_update_of line = None
               \<and> go_line r0 line = r0\<lparr>total_deps := incr (total_deps r0)\<rparr>)"
proof -
  from analyze_go_success [OF assms] obtain out err where
    run: "subprocess_run w [''go'', ''list'', ''-u'', ''-m'', ''all''] d 30 = Completed 0 out err"
    and r: "r = \<lparr>error = None, module_path = Some (path_str d),
                total_deps = Some (nonempty_lines out),
                outdated_count = Some (length (List.map_filter go_update_of (output_lines out))),
                updates = Some (List.map_filter go_update_of (output_lines out)),
                security_advisories = None\<rparr>"
    by blast
  from r have "total_deps r = Some (nonempty_lines out)"
    and "updates r = Some (List.map_filter go_update_of (output_lines out))"
    by simp_all
  with run matching_le_nonempty [of out] have first: "\<exists>out err.
            subprocess_run w [''go'', ''list'', ''-u'', ''-m'', ''all''] d 30 = Completed 0 out err
          \<and> total_deps r = Some (nonempty_lines out)
          \<and> matching_lines out \<le> nonempty_lines out
          \<and> updates r = Some (List.map_filter go_update_of (output_lines out))"
    by blast
  have "go_update_of line = None \<and> go_line r0 line = r0\<lparr>total_deps := incr (total_deps r0)\<rparr>"
    if "go_match line = None" "line \<noteq> []" for r0 line
    using that by (simp add: go_update_of_def go_line_def)
  with first show ?thesis by blast
qed

theorem go_total_deps_counts_nonempty_lines_witness:
  "snd (analyze_go_deps go_world [''repo''] [''repo'', ''bindings'', ''go'']) = Inr go_result
   \<and> error go_result = None
   \<and> total_deps go_result = Some (nonempty_lines go_output)
   \<and> nonempty_lines go_output = 3
   \<and> matching_lines go_output = 2
   \<and> go_match ''WARNING'' = None
   \<and> go_line go_result ''WARNING'' = go_result\<lparr>total_deps := Some 4\<rparr>"
proof -
  have e: "error go_result = None"
    by (simp add: go_result_def)
  have m: "go_match ''WARNING'' = None"
    by (simp add: go_match_def isspace_def)
  have i: "incr (total_deps go_result) = Some 4"
    by (simp add: go_result_def incr_def)
  from go_total_deps_counts_nonempty_lines [OF go_world_result e]
  show ?thesis
    using m i by (auto simp: go_world_run go_world_result e go_output_counts)
qed

section \<open>Properties of the probe of the native manifest\<close>

lemma py_get_obj: "py_get (JObj kvs) key dflt = Inr (case map_of kvs key of None \<Rightarrow> dflt | Some v \<Rightarrow> v)"
  by (simp add: py_get_def split: option.splits)

lemma py_getitem_obj:
  "py_getitem (JObj kvs) key = (case map_of kvs key of None \<Rightarrow> Inl (KeyError key) | Some v \<Rightarrow> Inr v)"
  by (simp add: py_getitem_def)

lemma cargo_step_obj:
  "cargo_step (JObj kvs) r =
     (case map_of kvs ''project'' of
        None \<Rightarrow> Inl (KeyError ''project'')
      | Some p \<Rightarrow>
         (case map_of kvs ''latest'' of
            None \<Rightarrow> Inl (KeyError ''latest'')
          | Some l \<Rightarrow>
              if py_ne p l then
                (case map_of kvs ''name'' of
                   None \<Rightarrow> Inl (KeyError ''name'')
                 | Some n \<Rightarrow>
                     Inr (r\<lparr>outdated_count := incr (outdated_count r),
                            updates := append_update (updates r)
                              \<lparr>name = n, current = p, latest = l,
                               change_type = determine_semver_change p l,
                               kind = Some (case map_of kvs ''kind'' of
                                              None \<Rightarrow> JStr ''unknown'' | Some k \<Rightarrow> k)\<rparr>\<rparr>))
              else Inr r))"
  by (simp add: cargo_step_def py_getitem_obj py_get_obj bindE_def Let_def split: option.splits)

lemma cargo_step_not_obj: "\<forall>kvs. dep \<noteq> JObj kvs \<Longrightarrow> cargo_step dep r = Inl TypeError"
  by (cases dep) (simp_all add: cargo_step_def py_getitem_def bindE_def)

lemma cargo_update_of_obj:
  "cargo_update_of (JObj kvs) =
     (case (map_of kvs ''project'', map_of kvs ''latest'', map_of kvs ''name'') of
        (Some p, Some l, Some n) \<Rightarrow>
          if py_ne p l then
            Some \<lparr>name = n, current = p, latest = l,
                  change_type = determine_semver_change p l,
                  kind = Some (case map_of kvs ''kind'' of None \<Rightarrow> JStr ''unknown'' | Some k \<Rightarrow> k)\<rparr>
          else None
      | _ \<Rightarrow> None)"
  by (simp add: cargo_update_of_def py_getitem_obj py_get_obj split: option.splits)

lemma cargo_differs_obj:
  "cargo_differs (JObj kvs) =
     (case (map_of kvs ''project'', map_of kvs ''latest'') of
        (Some p, Some l) \<Rightarrow> py_ne p l | _ \<Rightarrow> False)"
  by (simp add: cargo_differs_def py_getitem_obj split: option.splits)

lemma cargo_step_Inr:
  assumes "cargo_step dep r = Inr r'"
  shows "r' = (case cargo_update_of dep of
                 None \<Rightarrow> r
               | Some u \<Rightarrow> r\<lparr>outdated_count := incr (outdated_count r),
                              updates := append_update (updates r) u\<rparr>)
         \<and> (cargo_update_of dep \<noteq> None \<longleftrightarrow> cargo_differs dep)"
proof (cases "\<exists>kvs. dep = JObj kvs")
  case False
  with assms show ?thesis
    by (simp add: cargo_step_not_obj)
next
  case True
  then obtain kvs where "dep = JObj kvs" ..
  with assms show ?thesis
    by (auto simp: cargo_step_obj cargo_update_of_obj cargo_differs_obj
             split: option.splits if_splits)
qed

lemma cargo_loop_Inr:
  "cargo_loop deps r = Inr r' \<Longrightarrow> outdated_count r = Some c \<Longrightarrow> updates r = Some us \<Longrightarrow>
   r' = r\<lparr>outdated_count := Some (c + length (List.map_filter cargo_update_of deps)),
          updates := Some (us @ List.map_filter cargo_update_of deps)\<rparr>
   \<and> (\<forall>d \<in> set deps. cargo_update_of d \<noteq> None \<longleftrightarrow> cargo_differs d)"
proof (induction deps arbitrary: r c us)
  case Nil
  then show ?case by (simp add: map_filter_simps)
next
  case (Cons d deps)
  from Cons.prems(1) obtain r1 where s: "cargo_step d r = Inr r1" and l: "cargo_loop deps r1 = Inr r'"
    by (auto simp: bindE_def split: sum.splits)
  note st = cargo_step_Inr [OF s]
  show ?case
  proof (cases "cargo_update_of d")
    case None
    with st have "r1 = r" by simp
    with Cons.IH [OF l [unfolded this] Cons.prems(2,3)] None st show ?thesis
      by (simp add: map_filter_simps)
  next
    case (Some u)
    with st have r1: "r1 = r\<lparr>outdated_count := incr (outdated_count r),
                              updates := append_update (updates r) u\<rparr>"
      by simp
    have "outdated_count r1 = Some (Suc c)" "updates r1 = Some (us @ [u])"
      by (simp_all add: r1 Cons.prems incr_def append_update_def)
    from Cons.IH [OF l this] Some st r1 show ?thesis
      by (simp add: map_filter_simps)
  qed
qed


lemma snd_io_bind:
  "snd (io_bind m f) = (case snd m of Inl e \<Rightarrow> Inl e | Inr x \<Rightarrow> snd (f x))"
  by (cases m) (auto simp: io_bind_def split: sum.splits prod.splits)

lemma snd_io_simps [simp]:
  "snd (io_return x) = Inr x" "snd (io_raise e) = Inl e" "snd (io_emit ev) = Inr ()"
  "snd (io_lift r) = r"
  by (simp_all add: io_return_def io_raise_def io_emit_def io_lift_def)

lemma analyze_cargo_deps_snd:
  "snd (analyze_cargo_deps w root) =
     (case subprocess_run w [''cargo'', ''outdated'', ''--version''] root 30 of
        Completed rc1 o1 e1 \<Rightarrow>
          if rc1 \<noteq> 0 then Inr (error_result ''cargo-outdated not installed'')
          else (case subprocess_run w [''cargo'', ''outdated'', ''--workspace'', ''--format'', ''json'']
                       root 30 of
                  Completed rc2 out err \<Rightarrow>
                    if rc2 \<noteq> 0 then Inr (error_result (''Failed to run cargo outdated: '' @ err))
                    else (case cargo_try w out of
                            Inl JSONDecodeError \<Rightarrow>
                              Inr (error_result ''Failed to parse cargo outdated output'')
                          | Inl e \<Rightarrow> Inl e
                          | Inr result \<Rightarrow> Inr result)
                | TimeoutExpired \<Rightarrow>
                    Inr (error_result (''Failed to run cargo outdated: '' @ ''Command timed out''))
                | RunFailed msg \<Rightarrow>
                    Inr (error_result (''Failed to run cargo outdated: '' @ msg)))
      | _ \<Rightarrow> Inr (error_result ''cargo-outdated not installed''))"
  by (simp add: analyze_cargo_deps_def snd_io_bind run_command_eq split: run_outcome.splits)

lemma error_result_error [simp]: "error (error_result msg) = Some msg"
  by (simp add: error_result_def empty_result_def)

lemma cargo_try_Inr:
  assumes "cargo_try w out = Inr r"
  shows "\<exists>data dependencies n deps.
           json_loads w out = Some data \<and>
           py_get data ''dependencies'' (JArr []) = Inr dependencies \<and>
           py_len dependencies = Inr n \<and> py_iter dependencies = Inr deps \<and>
           r = \<lparr>error = None, module_path = None, total_deps = Some n,
                outdated_count = Some (length (List.map_filter cargo_update_of deps)),
                updates = Some (List.map_filter cargo_update_of deps),
                security_advisories = Some []\<rparr> \<and>
           (\<forall>d \<in> set deps. cargo_update_of d \<noteq> None \<longleftrightarrow> cargo_differs d)"
proof -
  from assms obtain data dependencies n deps where
    1: "json_loads w out = Some data"
    and 2: "py_get data ''dependencies'' (JArr []) = Inr dependencies"
    and 3: "py_len dependencies = Inr n" and 4: "py_iter dependencies = Inr deps"
    and 5: "cargo_loop deps
              \<lparr>error = None, module_path = None, total_deps = Some n, outdated_count = Some 0,
               updates = Some [], security_advisories = Some []\<rparr> = Inr r"
    by (auto simp: cargo_try_def bindE_def split: option.splits sum.splits)
  from cargo_loop_Inr [OF 5, of 0 "[]"] 1 2 3 4 show ?thesis
    by simp
qed

lemma analyze_cargo_success:
  assumes "snd (analyze_cargo_deps w root) = Inr r" and "error r = None"
  shows "\<exists>out err.
           subprocess_run w [''cargo'', ''outdated'', ''--workspace'', ''--format'', ''json''] root 30
             = Completed 0 out err \<and>
           cargo_try w out = Inr r"
  using assms
  by (auto simp: analyze_cargo_deps_snd split: run_outcome.splits if_splits sum.splits exn.splits)

lemma go_update_of_iff:
  "go_update_of line \<noteq> None \<longleftrightarrow> (\<exists>n c l. go_match line = Some (n, c, Some l) \<and> l \<noteq> c)"
  by (auto simp: go_update_of_def split: option.splits)

text \<open>
  C4. Whenever a probe returns a result without \<open>error\<close>, its \<open>outdated_count\<close> is the
  length of its \<open>updates\<close>, and the updates are, in order, exactly those of the
  dependencies whose current and latest versions differ: for the native manifest the
  entries of the decoded \<^verbatim>\<open>dependencies\<close> with \<^verbatim>\<open>project != latest\<close>, for a secondary module
  the lines that match with a latest version different from the current one.
\<close>

theorem outdated_count_is_length_of_updates:
  "(snd (analyze_cargo_deps w root) = Inr r \<and> error r = None \<longrightarrow>
      (\<exists>out err data dependencies deps.
          subprocess_run w [''cargo'', ''outdated'', ''--workspace'', ''--format'', ''json''] root 30
            = Completed 0 out err
        \<and> json_loads w out = Some data
        \<and> py_get data ''dependencies'' (JArr []) = Inr dependencies
        \<and> py_iter dependencies = Inr deps
        \<and> updates r = Some (List.map_filter cargo_update_of deps)
        \<and> outdated_count r = Some (length (List.map_filter cargo_update_of deps))
        \<and> (\<forall>d \<in> set deps. cargo_update_of d \<noteq> None \<longleftrightarrow> cargo_differs d)))
   \<and> (snd (analyze_go_deps w root d) = Inr r' \<and> error r' = None \<longrightarrow>
      (\<exists>out err.
          subprocess_run w [''go'', ''list'', ''-u'', ''-m'', ''all''] d 30 = Completed 0 out err
        \<and> updates r' = Some (List.map_filter go_update_of (output_lines out))
        \<and> outdated_count r' = Some (length (List.map_filter go_update_of (output_lines out)))
        \<and> (\<forall>line. go_update_of line \<noteq> None
              \<longleftrightarrow> (\<exists>n c l. go_match line = Some (n, c, Some l) \<and> l \<noteq> c))))"
proof (intro conjI impI)
  assume a: "snd (analyze_cargo_deps w root) = Inr r \<and> error r = None"
  then obtain out err where
    run: "subprocess_run w [''cargo'', ''outdated'', ''--workspace'', ''--format'', ''json''] root 30
            = Completed 0 out err"
    and t: "cargo_try w out = Inr r"
    using analyze_cargo_success by blast
  from cargo_try_Inr [OF t] obtain data dependencies n deps where
    "json_loads w out = Some data"
    "py_get data ''dependencies'' (JArr []) = Inr dependencies"
    "py_iter dependencies = Inr deps"
    "r = \<lparr>error = None, module_path = None, total_deps = Some n,
          outdated_count = Some (length (List.map_filter cargo_update_of deps)),
          updates = Some (List.map_filter cargo_update_of deps),
          security_advisories = Some []\<rparr>"
    "\<forall>d \<in> set deps. cargo_update_of d \<noteq> None \<longleftrightarrow> cargo_differs d"
    by blast
  with run show "\<exists>out err data dependencies deps.
          subprocess_run w [''cargo'', ''outdated'', ''--workspace'', ''--format'', ''json''] root 30
            = Completed 0 out err
        \<and> json_loads w out = Some data
        \<and> py_get data ''dependencies'' (JArr []) = Inr dependencies
        \<and> py_iter dependencies = Inr deps
        \<and> updates r = Some (List.map_filter cargo_update_of deps)
        \<and> outdated_count r = Some (length (List.map_filter cargo_update_of deps))
        \<and> (\<forall>d \<in> set deps. cargo_update_of d \<noteq> None \<longleftrightarrow> cargo_differs d)"
    by (intro exI [of _ out] exI [of _ err] exI [of _ data] exI [of _ dependencies]
              exI [of _ deps]) simp
next
  assume a: "snd (analyze_go_deps w root d) = Inr r' \<and> error r' = None"
  then obtain out err where
    run: "subprocess_run w [''go'', ''list'', ''-u'', ''-m'', ''all''] d 30 = Completed 0 out err"
    and r: "r' = \<lparr>error = None, module_path = Some (path_str d),
                 total_deps = Some (nonempty_lines out),
                 outdated_count = Some (length (List.map_filter go_update_of (output_lines out))),
                 updates = Some (List.map_filter go_update_of (output_lines out)),
                 security_advisories = None\<rparr>"
    using analyze_go_success by blast
  then show "\<exists>out err.
          subprocess_run w [''go'', ''list'', ''-u'', ''-m'', ''all''] d 30 = Completed 0 out err
        \<and> updates r' = Some (List.map_filter go_update_of (output_lines out))
        \<and> outdated_count r' = Some (length (List.map_filter go_update_of (output_lines out)))
        \<and> (\<forall>line. go_update_of line \<noteq> None
              \<longleftrightarrow> (\<exists>n c l. go_match line = Some (n, c, Some l) \<and> l \<noteq> c))"
    using go_update_of_iff by (intro exI [of _ out] exI [of _ err]) simp
qed

lemma cargo_world_try: "cargo_try cargo_world cargo_output = Inr cargo_result"
proof -
  have v1: "parse_version (JStr ''1.0.0'') = Inr [1, 0, 0]"
    by (simp add: version_eval)
  have v2: "parse_version (JStr ''1.1.0'') = Inr [1, 1, 0]"
    by (simp add: version_eval)
  have ct: "determine_semver_change (JStr ''1.0.0'') (JStr ''1.1.0'') = ''minor''"
    by (simp add: semver_eval v1 v2)
  have j: "json_loads cargo_world cargo_output = Some cargo_data"
    by (simp add: cargo_world_def bare_world_def)
  show ?thesis
    by (simp add: cargo_try_def j cargo_data_def serde_entry_def nameless_entry_def bindE_def py_get_def py_len_def py_iter_def
                  cargo_step_obj py_ne_def ct incr_def append_update_def cargo_result_def)
qed

lemma cargo_world_result: "snd (analyze_cargo_deps cargo_world [''repo'']) = Inr cargo_result"
proof -
  have v: "subprocess_run cargo_world [''cargo'', ''outdated'', ''--version''] [''repo''] 30
           = Completed 0 ''cargo-outdated'' []"
    by (simp add: cargo_world_def bare_world_def)
  have o: "subprocess_run cargo_world
             [''cargo'', ''outdated'', ''--workspace'', ''--format'', ''json''] [''repo''] 30
           = Completed 0 cargo_output []"
    by (simp add: cargo_world_def bare_world_def)
  show ?thesis
    by (simp add: analyze_cargo_deps_snd v o cargo_world_try)
qed

theorem outdated_count_is_length_of_updates_witness:
  "snd (analyze_cargo_deps cargo_world [''repo'']) = Inr cargo_result
   \<and> error cargo_result = None
   \<and> (\<exists>ups. updates cargo_result = Some ups \<and> outdated_count cargo_result = Some (length ups)
            \<and> length ups = 1)
   \<and> snd (analyze_go_deps go_world [''repo''] [''repo'', ''bindings'', ''go'']) = Inr go_result
   \<and> error go_result = None
   \<and> (\<exists>ups. updates go_result = Some ups \<and> outdated_count go_result = Some (length ups)
            \<and> length ups = 1)"
proof -
  have c: "error cargo_result = None" and g: "error go_result = None"
    by (simp_all add: cargo_result_def go_result_def)
  have c1: "outdated_count cargo_result = Some 1" and g1: "outdated_count go_result = Some 1"
    by (simp_all add: cargo_result_def go_result_def)
  have hc: "snd (analyze_cargo_deps cargo_world [''repo'']) = Inr cargo_result
            \<and> error cargo_result = None"
    using cargo_world_result c by simp
  have hg: "snd (analyze_go_deps go_world [''repo''] [''repo'', ''bindings'', ''go'']) = Inr go_result
            \<and> error go_result = None"
    using go_world_result g by simp
  from outdated_count_is_length_of_updates [THEN conjunct1, THEN mp, OF hc]
  obtain deps where "updates cargo_result = Some (List.map_filter cargo_update_of deps)"
    and "outdated_count cargo_result = Some (length (List.map_filter cargo_update_of deps))"
    by blast
  with c1 have "\<exists>ups. updates cargo_result = Some ups
                  \<and> outdated_count cargo_result = Some (length ups) \<and> length ups = 1"
    by simp
  moreover
  from outdated_count_is_length_of_updates [THEN conjunct2, THEN mp, OF hg]
  obtain out where "updates go_result = Some (List.map_filter go_update_of (output_lines out))"
    and "outdated_count go_result
         = Some (length (List.map_filter go_update_of (output_lines out)))"
    by blast
  with g1 have "\<exists>ups. updates go_result = Some ups
                  \<and> outdated_count go_result = Some (length ups) \<and> length ups = 1"
    by simp
  ultimately show ?thesis
    using cargo_world_result go_world_result c g by simp
qed

lemma cargo_step_obj_raises:
  "cargo_entry_raises (JObj kvs) \<Longrightarrow> \<exists>k. cargo_step (JObj kvs) r = Inl (KeyError k)"
  by (auto simp: cargo_entry_raises_def cargo_step_obj cargo_differs_obj split: option.splits)

lemma cargo_step_obj_ok:
  "\<not> cargo_entry_raises (JObj kvs) \<Longrightarrow> \<exists>r'. cargo_step (JObj kvs) r = Inr r' \<and> error r' = error r"
  by (auto simp: cargo_entry_raises_def cargo_step_obj cargo_differs_obj split: option.splits)

lemma cargo_loop_ok:
  "list_all is_obj deps \<Longrightarrow> \<not> list_ex cargo_entry_raises deps \<Longrightarrow>
   \<exists>r'. cargo_loop deps r = Inr r' \<and> error r' = error r"
proof (induction deps arbitrary: r)
  case Nil
  then show ?case by simp
next
  case (Cons d deps)
  from Cons.prems obtain kvs where d: "d = JObj kvs"
    by (cases d) (simp_all add: is_obj_def)
  from Cons.prems d obtain r1 where s: "cargo_step d r = Inr r1" and e: "error r1 = error r"
    using cargo_step_obj_ok [of kvs r] by auto
  from Cons.IH [of r1] Cons.prems obtain r' where "cargo_loop deps r1 = Inr r'" "error r' = error r1"
    by auto
  with s e show ?case
    by (simp add: bindE_def)
qed

lemma cargo_loop_raises:
  "list_all is_obj deps \<Longrightarrow> list_ex cargo_entry_raises deps \<Longrightarrow>
   \<exists>k. cargo_loop deps r = Inl (KeyError k)"
proof (induction deps arbitrary: r)
  case Nil
  then show ?case by simp
next
  case (Cons d deps)
  from Cons.prems obtain kvs where d: "d = JObj kvs"
    by (cases d) (simp_all add: is_obj_def)
  show ?case
  proof (cases "cargo_entry_raises d")
    case True
    with d obtain k where "cargo_step d r = Inl (KeyError k)"
      using cargo_step_obj_raises [of kvs r] by auto
    then show ?thesis
      by (simp add: bindE_def)
  next
    case False
    with d obtain r1 where s: "cargo_step d r = Inr r1"
      using cargo_step_obj_ok [of kvs r] by auto
    from False Cons.prems have "list_all is_obj deps" "list_ex cargo_entry_raises deps"
      by simp_all
    from Cons.IH [OF this, of r1] s show ?thesis
      by (simp add: bindE_def)
  qed
qed

lemma cargo_try_list:
  assumes "json_loads w out = Some (JObj tbl)" and "map_of tbl ''dependencies'' = Some (JArr deps)"
  shows "cargo_try w out =
           cargo_loop deps
             \<lparr>error = None, module_path = None, total_deps = Some (length deps),
              outdated_count = Some 0, updates = Some [], security_advisories = Some []\<rparr>"
  using assms by (simp add: cargo_try_def bindE_def py_get_def py_len_def py_iter_def)

text \<open>
  C10, amended. In the probe of the native manifest the \<^verbatim>\<open>try\<close> catches only the failure
  to decode: any other exception of the body leaves the probe. When the output decodes to
  an object whose \<^verbatim>\<open>dependencies\<close> is a list of objects, an entry that lacks \<^verbatim>\<open>project\<close> or
  \<^verbatim>\<open>latest\<close>, or that lacks \<^verbatim>\<open>name\<close> while its two versions differ, makes the probe raise
  \<^verbatim>\<open>KeyError\<close> instead of returning an error result; with no such entry (an entry without
  \<^verbatim>\<open>name\<close> whose versions are equal is none) the probe returns a result without \<open>error\<close>.
  An outdated entry that lacks only \<^verbatim>\<open>kind\<close> is recorded with the kind \<^verbatim>\<open>unknown\<close>.
\<close>

theorem cargo_missing_key_raises:
  assumes "subprocess_run w [''cargo'', ''outdated'', ''--version''] root 30 = Completed 0 o1 e1"
    and "subprocess_run w [''cargo'', ''outdated'', ''--workspace'', ''--format'', ''json''] root 30
           = Completed 0 out err"
    and "json_loads w out = Some (JObj tbl)"
    and "map_of tbl ''dependencies'' = Some (JArr deps)"
    and "\<forall>d \<in> set deps. is_obj d"
  shows "(\<forall>e. cargo_try w out = Inl e
            \<longrightarrow> snd (analyze_cargo_deps w root) =
                  (if e = JSONDecodeError
                   then Inr (error_result ''Failed to parse cargo outdated output'')
                   else Inl e))
       \<and> ((\<exists>d \<in> set deps. cargo_entry_raises d)
            \<longrightarrow> (\<exists>k. snd (analyze_cargo_deps w root) = Inl (KeyError k)))
       \<and> ((\<forall>d \<in> set deps. \<not> cargo_entry_raises d)
            \<longrightarrow> (\<exists>r. snd (analyze_cargo_deps w root) = Inr r \<and> error r = None))
       \<and> (\<forall>kvs p l n r0.
            map_of kvs ''project'' = Some p \<and> map_of kvs ''latest'' = Some l \<and> py_ne p l
            \<and> map_of kvs ''name'' = Some n \<and> map_of kvs ''kind'' = None
            \<longrightarrow> cargo_step (JObj kvs) r0 =
                  Inr (r0\<lparr>outdated_count := incr (outdated_count r0),
                          updates := append_update (updates r0)
                            \<lparr>name = n, current = p, latest = l,
                             change_type = determine_semver_change p l,
                             kind = Some (JStr ''unknown'')\<rparr>\<rparr>))"
proof (intro conjI impI allI)
  let ?r0 = "\<lparr>error = None, module_path = None, total_deps = Some (length deps),
              outdated_count = Some 0, updates = Some [], security_advisories = Some []\<rparr>"
  have snd_eq: "snd (analyze_cargo_deps w root) =
        (case cargo_loop deps ?r0 of
           Inl JSONDecodeError \<Rightarrow> Inr (error_result ''Failed to parse cargo outdated output'')
         | Inl e \<Rightarrow> Inl e
         | Inr result \<Rightarrow> Inr result)"
    using assms(1,2) cargo_try_list [OF assms(3,4)] by (simp add: analyze_cargo_deps_snd)
  have objs: "list_all is_obj deps"
    using assms(5) by (simp add: list_all_iff)
  {
    fix e
    assume "cargo_try w out = Inl e"
    then show "snd (analyze_cargo_deps w root) =
                 (if e = JSONDecodeError
                  then Inr (error_result ''Failed to parse cargo outdated output'')
                  else Inl e)"
      using assms(1,2) by (simp add: analyze_cargo_deps_snd split: exn.splits)
  }
  {
    assume "\<exists>d \<in> set deps. cargo_entry_raises d"
    then have "list_ex cargo_entry_raises deps"
      by (simp add: list_ex_iff)
    from cargo_loop_raises [OF objs this, of ?r0] obtain k where "cargo_loop deps ?r0 = Inl (KeyError k)"
      by blast
    then show "\<exists>k. snd (analyze_cargo_deps w root) = Inl (KeyError k)"
      by (simp add: snd_eq)
  }
  {
    assume "\<forall>d \<in> set deps. \<not> cargo_entry_raises d"
    then have "\<not> list_ex cargo_entry_raises deps"
      by (simp add: list_ex_iff)
    from cargo_loop_ok [OF objs this, of ?r0] obtain r where "cargo_loop deps ?r0 = Inr r" "error r = None"
      by auto
    then show "\<exists>r. snd (analyze_cargo_deps w root) = Inr r \<and> error r = None"
      by (simp add: snd_eq)
  }
  {
    fix kvs p l n r0
    assume "map_of kvs ''project'' = Some p \<and> map_of kvs ''latest'' = Some l \<and> py_ne p l
            \<and> map_of kvs ''name'' = Some n \<and> map_of kvs ''kind'' = None"
    then show "cargo_step (JObj kvs) r0 =
                  Inr (r0\<lparr>outdated_count := incr (outdated_count r0),
                          updates := append_update (updates r0)
                            \<lparr>name = n, current = p, latest = l,
                             change_type = determine_semver_change p l,
                             kind = Some (JStr ''unknown'')\<rparr>\<rparr>)"
      by (simp add: cargo_step_obj)
  }
qed

lemma cargo_world_runs:
  "subprocess_run cargo_world [''cargo'', ''outdated'', ''--version''] [''repo''] 30
     = Completed 0 ''cargo-outdated'' []"
  "subprocess_run cargo_world [''cargo'', ''outdated'', ''--workspace'', ''--format'', ''json'']
     [''repo''] 30 = Completed 0 cargo_output []"
  "subprocess_run broken_cargo_world [''cargo'', ''outdated'', ''--version''] [''repo''] 30
     = Completed 0 ''cargo-outdated'' []"
  "subprocess_run broken_cargo_world [''cargo'', ''outdated'', ''--workspace'', ''--format'', ''json'']
     [''repo''] 30 = Completed 0 cargo_output []"
  by (simp_all add: broken_cargo_world_def cargo_world_def bare_world_def)

text \<open>
  C10, as stated, fails: an entry without \<^verbatim>\<open>name\<close> whose versions are equal raises
  nothing; the probe returns its counts.
\<close>

theorem cargo_missing_name_counterexample:
  "json_loads cargo_world cargo_output = Some cargo_data
   \<and> cargo_data = JObj [(''dependencies'', JArr [serde_entry, nameless_entry])]
   \<and> py_getitem nameless_entry ''name'' = Inl (KeyError ''name'')
   \<and> snd (analyze_cargo_deps cargo_world [''repo'']) = Inr cargo_result"
  by (simp add: cargo_world_result cargo_data_def)
     (simp add: cargo_world_def bare_world_def nameless_entry_def py_getitem_def cargo_data_def)

theorem cargo_missing_key_raises_witness:
  "json_loads broken_cargo_world cargo_output = Some broken_data
   \<and> broken_data = JObj [(''dependencies'', JArr [kindless_entry, latestless_entry])]
   \<and> is_obj kindless_entry \<and> is_obj latestless_entry
   \<and> cargo_entry_raises latestless_entry
   \<and> cargo_try broken_cargo_world cargo_output = Inl (KeyError ''latest'')
   \<and> snd (analyze_cargo_deps broken_cargo_world [''repo'']) = Inl (KeyError ''latest'')
   \<and> json_loads cargo_world cargo_output = Some cargo_data
   \<and> is_obj serde_entry \<and> is_obj nameless_entry
   \<and> \<not> cargo_entry_raises serde_entry \<and> \<not> cargo_entry_raises nameless_entry
   \<and> (\<exists>r. snd (analyze_cargo_deps cargo_world [''repo'']) = Inr r \<and> error r = None)
   \<and> cargo_step kindless_entry cargo_result =
       Inr (cargo_result
             \<lparr>outdated_count := incr (outdated_count cargo_result),
              updates := append_update (updates cargo_result)
                \<lparr>name = JStr ''tokio'', current = JStr ''1.0.0'', latest = JStr ''1.2.0'',
                 change_type = determine_semver_change (JStr ''1.0.0'') (JStr ''1.2.0''),
                 kind = Some (JStr ''unknown'')\<rparr>\<rparr>)"
proof -
  have jb: "json_loads broken_cargo_world cargo_output = Some broken_data"
    by (simp add: broken_cargo_world_def)
  have jc: "json_loads cargo_world cargo_output = Some cargo_data"
    by (simp add: cargo_world_def bare_world_def)
  have objs: "is_obj kindless_entry" "is_obj latestless_entry" "is_obj serde_entry"
    "is_obj nameless_entry"
    by (simp_all add: is_obj_def kindless_entry_def latestless_entry_def serde_entry_def
                      nameless_entry_def)
  have bad: "cargo_entry_raises latestless_entry"
    by (simp add: cargo_entry_raises_def latestless_entry_def)
  have good: "\<not> cargo_entry_raises serde_entry" "\<not> cargo_entry_raises nameless_entry"
    by (simp_all add: cargo_entry_raises_def serde_entry_def nameless_entry_def
                      cargo_differs_obj py_ne_def)
  have mb: "map_of [(''dependencies'', JArr [kindless_entry, latestless_entry])] ''dependencies''
            = Some (JArr [kindless_entry, latestless_entry])"
    by simp
  have mc: "map_of [(''dependencies'', JArr [serde_entry, nameless_entry])] ''dependencies''
            = Some (JArr [serde_entry, nameless_entry])"
    by simp
  have ob: "\<forall>d \<in> set [kindless_entry, latestless_entry]. is_obj d"
    using objs by simp
  have oc: "\<forall>d \<in> set [serde_entry, nameless_entry]. is_obj d"
    using objs by simp
  note broken = cargo_missing_key_raises
    [OF cargo_world_runs(3) cargo_world_runs(4) jb [unfolded broken_data_def] mb ob]
  note fine = cargo_missing_key_raises
    [OF cargo_world_runs(1) cargo_world_runs(2) jc [unfolded cargo_data_def] mc oc]
  have 0: "cargo_try broken_cargo_world cargo_output = Inl (KeyError ''latest'')"
    by (simp add: cargo_try_list [OF jb [unfolded broken_data_def] mb] kindless_entry_def
                  latestless_entry_def cargo_step_obj py_ne_def bindE_def)
  have 1: "snd (analyze_cargo_deps broken_cargo_world [''repo'']) = Inl (KeyError ''latest'')"
    using broken [THEN conjunct1, rule_format, OF 0] by simp
  have 2: "\<exists>r. snd (analyze_cargo_deps cargo_world [''repo'']) = Inr r \<and> error r = None"
    using fine [THEN conjunct2] good by simp
  have 3: "cargo_step kindless_entry cargo_result =
       Inr (cargo_result
             \<lparr>outdated_count := incr (outdated_count cargo_result),
              updates := append_update (updates cargo_result)
                \<lparr>name = JStr ''tokio'', current = JStr ''1.0.0'', latest = JStr ''1.2.0'',
                 change_type = determine_semver_change (JStr ''1.0.0'') (JStr ''1.2.0''),
                 kind = Some (JStr ''unknown'')\<rparr>\<rparr>)"
    using fine [THEN conjunct2, THEN conjunct2, THEN conjunct2, rule_format,
                of "[(''name'', JStr ''tokio''), (''project'', JStr ''1.0.0''),
                     (''latest'', JStr ''1.2.0'')]"
                   "JStr ''1.0.0''" "JStr ''1.2.0''" "JStr ''tokio''" cargo_result]
    by (simp add: kindless_entry_def py_ne_def)
  from jb jc objs bad good 0 1 2 3 show ?thesis
    by (simp add: broken_data_def)
qed

section \<open>Properties of the report builder\<close>

lemma analyze_go_deps_snd:
  "snd (analyze_go_deps w root d) =
     (if \<not> path_exists w (d @ [''go.mod'']) then Inr (error_result ''go.mod not found'')
      else (case subprocess_run w [''go'', ''list'', ''-u'', ''-m'', ''all''] d 30 of
              Completed rc out err \<Rightarrow>
                if rc \<noteq> 0 then Inr (error_result (''Failed to run go list: '' @ err))
                else Inr (foldl go_line
                            \<lparr>error = None, module_path = Some (path_str d), total_deps = Some 0,
                             outdated_count = Some 0, updates = Some [],
                             security_advisories = None\<rparr>
                            (split_on (CHR 0x0A) (strip out)))
            | TimeoutExpired \<Rightarrow>
                Inr (error_result (''Failed to run go list: '' @ ''Command timed out''))
            | RunFailed msg \<Rightarrow> Inr (error_result (''Failed to run go list: '' @ msg))))"
  by (simp add: analyze_go_deps_def snd_io_bind run_command_eq split: run_outcome.splits)

lemma error_result_fields [simp]:
  "outdated_count (error_result msg) = None" "updates (error_result msg) = None"
  by (simp_all add: error_result_def empty_result_def)

lemma analyze_go_deps_cases:
  "(\<exists>msg. snd (analyze_go_deps w root d) = Inr (error_result msg))
   \<or> (\<exists>r. snd (analyze_go_deps w root d) = Inr r \<and> error r = None)"
proof (cases "path_exists w (d @ [''go.mod''])")
  case False
  then have "snd (analyze_go_deps w root d) = Inr (error_result ''go.mod not found'')"
    by (simp add: analyze_go_deps_snd)
  then show ?thesis by blast
next
  case True
  show ?thesis
  proof (cases "subprocess_run w [''go'', ''list'', ''-u'', ''-m'', ''all''] d 30")
    case (Completed rc out err)
    show ?thesis
    proof (cases "rc = 0")
      case True
      with Completed \<open>path_exists w (d @ [''go.mod''])\<close> show ?thesis
        by (simp add: analyze_go_deps_snd foldl_go_line)
    next
      case False
      with Completed \<open>path_exists w (d @ [''go.mod''])\<close>
      have "snd (analyze_go_deps w root d) = Inr (error_result (''Failed to run go list: '' @ err))"
        by (simp add: analyze_go_deps_snd)
      then show ?thesis by blast
    qed
  next
    case TimeoutExpired
    with True have "snd (analyze_go_deps w root d)
                    = Inr (error_result (''Failed to run go list: '' @ ''Command timed out''))"
      by (simp add: analyze_go_deps_snd)
    then show ?thesis by blast
  next
    case (RunFailed msg)
    with True have "snd (analyze_go_deps w root d)
                    = Inr (error_result (''Failed to run go list: '' @ msg))"
      by (simp add: analyze_go_deps_snd)
    then show ?thesis by blast
  qed
qed

lemma analyze_go_deps_total:
  "\<exists>r. snd (analyze_go_deps w root d) = Inr r \<and> errors_count_nothing r"
  using analyze_go_deps_cases [of w root d]
  by (auto simp: errors_count_nothing_def)

lemma handler_Inr:
  "(case x of Inl JSONDecodeError \<Rightarrow> Inr a | Inl e \<Rightarrow> Inl e | Inr result \<Rightarrow> Inr result) = Inr r
   \<Longrightarrow> r = a \<or> x = Inr r"
  by (cases x) (auto split: exn.splits)

lemma analyze_cargo_deps_cases:
  assumes "snd (analyze_cargo_deps w root) = Inr r"
  shows "(\<exists>msg. r = error_result msg) \<or> (\<exists>out. cargo_try w out = Inr r)"
proof (cases "subprocess_run w [''cargo'', ''outdated'', ''--version''] root 30")
  case (Completed rc1 o1 e1)
  show ?thesis
  proof (cases "rc1 = 0")
    case False
    with Completed assms show ?thesis
      by (auto simp: analyze_cargo_deps_snd)
  next
    case True
    show ?thesis
    proof (cases "subprocess_run w [''cargo'', ''outdated'', ''--workspace'', ''--format'', ''json'']
                    root 30")
      case c2: (Completed rc2 out err)
      show ?thesis
      proof (cases "rc2 = 0")
        case False
        with c2 Completed True assms show ?thesis
          by (auto simp: analyze_cargo_deps_snd)
      next
        case rc2: True
        from assms have "(case cargo_try w out of
                Inl JSONDecodeError \<Rightarrow> Inr (error_result ''Failed to parse cargo outdated output'')
              | Inl e \<Rightarrow> Inl e
              | Inr result \<Rightarrow> Inr result) = Inr r"
          by (simp add: analyze_cargo_deps_snd Completed True c2 rc2)
        from handler_Inr [OF this] show ?thesis by blast
      qed
    next
      case TimeoutExpired
      with Completed True assms show ?thesis
        by (auto simp: analyze_cargo_deps_snd)
    next
      case (RunFailed msg)
      with Completed True assms show ?thesis
        by (auto simp: analyze_cargo_deps_snd)
    qed
  qed
next
  case TimeoutExpired
  with assms show ?thesis by (auto simp: analyze_cargo_deps_snd)
next
  case (RunFailed msg)
  with assms show ?thesis by (auto simp: analyze_cargo_deps_snd)
qed

lemma analyze_cargo_deps_Inr:
  assumes "snd (analyze_cargo_deps w root) = Inr r"
  shows "errors_count_nothing r"
proof -
  have "error r = None" if "cargo_try w out = Inr r" for out
    using cargo_try_Inr [OF that] by (elim exE conjE) simp
  with analyze_cargo_deps_cases [OF assms] show ?thesis
    unfolding errors_count_nothing_def by fastforce
qed

lemma dict_set_all:
  "P v \<Longrightarrow> list_all P (map snd kvs) \<Longrightarrow> list_all P (map snd (dict_set kvs k v))"
  by (induction kvs) auto

lemma go_modules_loop_step:
  assumes "path_exists w d" and "snd (analyze_go_deps w root d) = Inr r"
  shows "snd (go_modules_loop w root (d # dirs) rep) =
           snd (go_modules_loop w root dirs
                  (rep\<lparr>go_modules := dict_set (go_modules rep) (module_name_of d) r\<rparr>))"
  using assms by (simp add: snd_io_bind)

lemma go_modules_loop_skip:
  assumes "\<not> path_exists w d"
  shows "snd (go_modules_loop w root (d # dirs) rep) = snd (go_modules_loop w root dirs rep)"
  using assms by simp


lemma go_modules_loop_Inr:
  "snd (go_modules_loop w root dirs rep) = Inr rep' \<Longrightarrow>
   list_all errors_count_nothing (map snd (go_modules rep)) \<Longrightarrow>
   rust rep' = rust rep \<and> list_all errors_count_nothing (map snd (go_modules rep'))"
proof (induction dirs arbitrary: rep)
  case Nil
  then show ?case by simp
next
  case (Cons d dirs)
  show ?case
  proof (cases "path_exists w d")
    case False
    from Cons.prems(1) have "snd (go_modules_loop w root dirs rep) = Inr rep'"
      unfolding go_modules_loop_skip [OF False] .
    from Cons.IH [OF this Cons.prems(2)] show ?thesis .
  next
    case True
    obtain r where r: "snd (analyze_go_deps w root d) = Inr r" and e: "errors_count_nothing r"
      using analyze_go_deps_total by blast
    define rep1 where "rep1 = rep\<lparr>go_modules := dict_set (go_modules rep) (module_name_of d) r\<rparr>"
    from Cons.prems(1) have 1: "snd (go_modules_loop w root dirs rep1) = Inr rep'"
      unfolding go_modules_loop_step [OF True r] rep1_def .
    have 2: "list_all errors_count_nothing (map snd (go_modules rep1))"
      unfolding rep1_def using dict_set_all [OF e Cons.prems(2)] by simp
    have 3: "rust rep1 = rust rep"
      unfolding rep1_def by simp
    from Cons.IH [OF 1 2] 3 show ?thesis by simp
  qed
qed

lemma analyze_rust_dependencies_Inr:
  assumes "snd (analyze_rust_dependencies w root rep) = Inr rep1"
    and "errors_count_nothing (rust rep)"
  shows "errors_count_nothing (rust rep1) \<and> go_modules rep1 = go_modules rep"
proof (cases "path_exists w (root @ [''Cargo.toml''])")
  case False
  with assms show ?thesis
    by (simp add: analyze_rust_dependencies_def)
next
  case True
  with assms obtain r where r: "snd (analyze_cargo_deps w root) = Inr r" and "rep1 = rep\<lparr>rust := r\<rparr>"
    by (cases "snd (analyze_cargo_deps w root)")
       (simp_all add: analyze_rust_dependencies_def snd_io_bind)
  with analyze_cargo_deps_Inr [OF r] show ?thesis by simp
qed

lemma generate_summary_fields:
  "summary (generate_summary rep) =
     Some \<lparr>s_total_rust_updates = get_outdated_count (rust rep),
           s_total_go_updates = sum_list (map get_outdated_count (map snd (go_modules rep))),
           s_total_updates = get_outdated_count (rust rep)
              + sum_list (map get_outdated_count (map snd (go_modules rep))),
           s_has_major_updates = has_major_updates rep,
           s_has_security_updates = False\<rparr>"
  "rust (generate_summary rep) = rust rep"
  "go_modules (generate_summary rep) = go_modules rep"
  by (simp_all add: generate_summary_def Let_def has_security_updates_def)

lemma generate_report_snd:
  "snd (generate_report w root) =
     (case check_output w date_cmd of
        Inl e \<Rightarrow> Inl e
      | Inr stamp \<Rightarrow>
          (case snd (analyze_rust_dependencies w root
                       \<lparr>timestamp = strip stamp, project_root = path_str root,
                        rust = empty_result, go_modules = [], summary = None\<rparr>) of
             Inl e \<Rightarrow> Inl e
           | Inr rep1 \<Rightarrow>
               (case snd (analyze_go_modules w root rep1) of
                  Inl e \<Rightarrow> Inl e
                | Inr rep2 \<Rightarrow> Inr (generate_summary rep2))))"
  by (simp add: generate_report_def snd_io_bind split: sum.splits)

lemma generate_report_Inr:
  assumes "snd (generate_report w root) = Inr rep"
  shows "\<exists>s. summary rep = Some s
           \<and> s_has_major_updates s = has_major_updates rep
           \<and> s_has_security_updates s = False
           \<and> s_total_rust_updates s = get_outdated_count (rust rep)
           \<and> s_total_go_updates s = sum_list (map get_outdated_count (map snd (go_modules rep)))
           \<and> s_total_updates s = s_total_rust_updates s + s_total_go_updates s
           \<and> errors_count_nothing (rust rep)
           \<and> (\<forall>m \<in> snd ` set (go_modules rep). errors_count_nothing m)"
proof -
  from assms obtain stamp rep1 rep2 where
    r1: "snd (analyze_rust_dependencies w root
                \<lparr>timestamp = strip stamp, project_root = path_str root,
                 rust = empty_result, go_modules = [], summary = None\<rparr>) = Inr rep1"
    and r2: "snd (analyze_go_modules w root rep1) = Inr rep2"
    and rep: "rep = generate_summary rep2"
    by (auto simp: generate_report_snd split: sum.splits)
  have "errors_count_nothing empty_result"
    by (simp add: errors_count_nothing_def empty_result_def)
  with analyze_rust_dependencies_Inr [OF r1] have e1: "errors_count_nothing (rust rep1)"
    and g1: "go_modules rep1 = []"
    by simp_all
  from go_modules_loop_Inr [OF r2 [unfolded analyze_go_modules_def]] g1
  have k: "rust rep2 = rust rep1"
    and "list_all errors_count_nothing (map snd (go_modules rep2))"
    by simp_all
  then have i: "\<forall>m \<in> snd ` set (go_modules rep2). errors_count_nothing m"
    by (simp add: list_all_iff)
  from e1 k i show ?thesis
    by (simp add: rep generate_summary_fields has_major_updates_def)
qed

lemma list_ex_get_updates:
  "list_ex P (get_updates m) \<longleftrightarrow> (\<exists>us u. updates m = Some us \<and> u \<in> set us \<and> P u)"
  by (cases "updates m") (auto simp: get_updates_def list_ex_iff)

lemma has_major_updates_iff:
  "has_major_updates rep \<longleftrightarrow>
     (\<exists>m us u. (m = rust rep \<or> m \<in> snd ` set (go_modules rep))
               \<and> updates m = Some us \<and> u \<in> set us \<and> change_type u = ''major'')"
proof -
  have "has_major_updates rep \<longleftrightarrow>
        list_ex (\<lambda>u. change_type u = ''major'') (get_updates (rust rep))
        \<or> (\<exists>m \<in> snd ` set (go_modules rep).
              list_ex (\<lambda>u. change_type u = ''major'') (get_updates m))"
    by (simp add: has_major_updates_def list_ex_iff)
  then show ?thesis
    unfolding list_ex_get_updates by blast
qed


text \<open>
  C5. In every generated report \<open>summary.has_major_updates\<close> is true exactly when some
  update of the native result or of a Go-module result has \<open>change_type\<close> major; with no
  update anywhere it is false.
\<close>

theorem has_major_updates_iff_some_major:
  assumes "snd (generate_report w root) = Inr rep"
  shows "\<exists>s. summary rep = Some s
           \<and> (s_has_major_updates s \<longleftrightarrow>
                (\<exists>m us u. (m = rust rep \<or> m \<in> snd ` set (go_modules rep))
                          \<and> updates m = Some us \<and> u \<in> set us \<and> change_type u = ''major''))
           \<and> ((\<forall>m us. (m = rust rep \<or> m \<in> snd ` set (go_modules rep)) \<and> updates m = Some us
                         \<longrightarrow> us = [])
                \<longrightarrow> \<not> s_has_major_updates s)"
proof -
  from generate_report_Inr [OF assms] obtain s where
    s: "summary rep = Some s" and h: "s_has_major_updates s = has_major_updates rep"
    by blast
  have iff: "s_has_major_updates s \<longleftrightarrow>
                (\<exists>m us u. (m = rust rep \<or> m \<in> snd ` set (go_modules rep))
                          \<and> updates m = Some us \<and> u \<in> set us \<and> change_type u = ''major'')"
    unfolding h by (rule has_major_updates_iff)
  have "\<not> s_has_major_updates s"
    if "\<forall>m us. (m = rust rep \<or> m \<in> snd ` set (go_modules rep)) \<and> updates m = Some us
                 \<longrightarrow> us = []"
  proof
    assume "s_has_major_updates s"
    with iff obtain m us u where m: "m = rust rep \<or> m \<in> snd ` set (go_modules rep)"
      "updates m = Some us" and u: "u \<in> set us"
      by blast
    from that m have "us = []"
      by blast
    with u show False by simp
  qed
  with s iff show ?thesis by blast
qed

lemma world_facts:
  "check_output bare_world date_cmd = Inr ''2025-01-01 00:00:00''"
  "check_output go_world date_cmd = Inr ''2025-01-01 00:00:00''"
  "check_output cargo_world date_cmd = Inr ''2025-01-01 00:00:00''"
  "check_output stalled_world date_cmd = Inr ''2025-01-01 00:00:00''"
  "check_output readonly_world date_cmd = Inr ''2025-01-01 00:00:00''"
  "path_exists bare_world p \<longleftrightarrow> p = [''repo'']"
  "path_exists go_world p \<longleftrightarrow> p = [''repo''] \<or> p = [''repo'', ''bindings'', ''go'']
                           \<or> p = [''repo'', ''bindings'', ''go'', ''go.mod'']"
  "path_exists cargo_world p \<longleftrightarrow> p = [''repo''] \<or> p = [''repo'', ''Cargo.toml'']"
  "path_exists readonly_world p \<longleftrightarrow> p = [''repo''] \<or> p = [''repo'', ''Cargo.toml'']"
  "path_exists stalled_world p"
  "\<not> path_exists rootless_world p"
  "resolve bare_world x = [''repo'']" "resolve go_world x = [''repo'']"
  "resolve cargo_world x = [''repo'']" "resolve stalled_world x = [''repo'']"
  "resolve readonly_world x = [''repo'']" "resolve rootless_world x = [''repo'']"
  "resolve dateless_world x = [''repo'']"
  "path_exists dateless_world p \<longleftrightarrow> p = [''repo'']"
  "check_output dateless_world c = Inl CalledProcessError"
  "subprocess_run stalled_world c d t = TimeoutExpired"
  "write_json readonly_world f r = Some (OSError ''Permission denied'')"
  "write_json bare_world f r = None" "write_json go_world f r = None"
  "write_json cargo_world f r = None" "write_json stalled_world f r = None"
  by (simp_all add: bare_world_def go_world_def cargo_world_def stalled_world_def
                    readonly_world_def rootless_world_def dateless_world_def)

lemma strip_stamp: "strip ''2025-01-01 00:00:00'' = ''2025-01-01 00:00:00''"
  by (simp add: strip_def isspace_def)

lemmas report_eval =
  generate_report_snd analyze_rust_dependencies_def analyze_go_modules_def world_facts
  strip_stamp path_str_def snd_io_bind generate_summary_def has_major_updates_def
  has_security_updates_def get_outdated_count_def get_updates_def module_name_of_def
  path_name_def path_parent_def

lemma bare_world_report: "snd (generate_report bare_world [''repo'']) = Inr bare_report"
  by (simp add: report_eval bare_report_def empty_result_def)

lemma go_world_report: "snd (generate_report go_world [''repo'']) = Inr go_report"
  by (simp add: report_eval go_world_result go_report_def)
     (simp add: go_result_def empty_result_def)


lemma stalled_world_report: "snd (generate_report stalled_world [''repo'']) = Inr stalled_report"
  by (simp add: report_eval analyze_cargo_deps_snd analyze_go_deps_snd stalled_report_def)

theorem has_major_updates_iff_some_major_witness:
  "snd (generate_report go_world [''repo'']) = Inr go_report
   \<and> (\<exists>s. summary go_report = Some s \<and> s_has_major_updates s)
   \<and> (\<exists>m us u. (m = rust go_report \<or> m \<in> snd ` set (go_modules go_report))
                 \<and> updates m = Some us \<and> u \<in> set us \<and> change_type u = ''major'')
   \<and> snd (generate_report bare_world [''repo'']) = Inr bare_report
   \<and> updates (rust bare_report) = None \<and> go_modules bare_report = []
   \<and> (\<exists>s. summary bare_report = Some s \<and> \<not> s_has_major_updates s)"
proof -
  have g: "\<exists>s. summary go_report = Some s \<and> s_has_major_updates s"
    by (simp add: go_report_def)
  have b: "\<forall>m us. (m = rust bare_report \<or> m \<in> snd ` set (go_modules bare_report))
                \<and> updates m = Some us \<longrightarrow> us = []"
    by (simp add: bare_report_def empty_result_def)
  from has_major_updates_iff_some_major [OF go_world_report] g
  have 1: "\<exists>m us u. (m = rust go_report \<or> m \<in> snd ` set (go_modules go_report))
                 \<and> updates m = Some us \<and> u \<in> set us \<and> change_type u = ''major''"
    by auto
  from has_major_updates_iff_some_major [OF bare_world_report] b
  have 2: "\<exists>s. summary bare_report = Some s \<and> \<not> s_has_major_updates s"
    by blast
  have 3: "updates (rust bare_report) = None \<and> go_modules bare_report = []"
    by (simp add: bare_report_def empty_result_def)
  from go_world_report bare_world_report g 1 2 3 show ?thesis
    by blast
qed


section \<open>Properties of the entry point\<close>

lemma main_rootless:
  assumes "\<not> path_exists w (resolve w (arg_project_root a))"
  shows "main a w =
           ([Printed (ProjectRootNotFound (path_str (resolve w (arg_project_root a))))],
            Inl (SystemExit 1))"
  using assms by (simp add: main_def Let_def io_bind_def io_emit_def io_raise_def)

lemma main_snd:
  assumes "path_exists w (resolve w (arg_project_root a))"
  shows "snd (main a w) =
     (case snd (generate_report w (resolve w (arg_project_root a))) of
        Inl e \<Rightarrow> Inl e
      | Inr rep \<Rightarrow>
          (case (case arg_save a of
                   None \<Rightarrow> None
                 | Some file \<Rightarrow> if file = [] then None else write_json w file rep) of
             Some e \<Rightarrow> Inl e
           | None \<Rightarrow>
               (case summary rep of
                  None \<Rightarrow> Inl (KeyError ''total_updates'')
                | Some s \<Rightarrow> if 0 < s_total_updates s then Inl (SystemExit 1) else Inr ())))"
  using assms
  by (simp add: main_def Let_def snd_io_bind split: sum.splits option.splits)

text \<open>
  C7. When the resolved project root does not exist, \<open>main\<close> prints the one line saying
  so and ends with exit code 1: no command is run and no report is printed. When the root
  exists and the run completes (the report is generated and the file requested by
  \<^verbatim>\<open>--save\<close>, if any, is written), the exit code is 1 if \<open>summary.total_updates\<close> is
  positive and 0 otherwise; \<open>total_updates\<close> is the sum of the \<open>outdated_count\<close> of the
  results, and a result that carries an error adds nothing to it.
\<close>

theorem exit_code_cases:
  "(\<not> path_exists w (resolve w (arg_project_root a)) \<longrightarrow>
      main a w = ([Printed (ProjectRootNotFound (path_str (resolve w (arg_project_root a))))],
                  Inl (SystemExit 1))
      \<and> exit_code (main a w) = 1)
   \<and> (path_exists w (resolve w (arg_project_root a))
       \<and> snd (generate_report w (resolve w (arg_project_root a))) = Inr rep
       \<and> (case arg_save a of None \<Rightarrow> True
           | Some file \<Rightarrow> file = [] \<or> write_json w file rep = None)
      \<longrightarrow> (\<exists>s. summary rep = Some s
               \<and> s_total_updates s
                   = get_outdated_count (rust rep)
                     + sum_list (map get_outdated_count (map snd (go_modules rep)))
               \<and> exit_code (main a w) = (if 0 < s_total_updates s then 1 else 0))
          \<and> (\<forall>m. (m = rust rep \<or> m \<in> snd ` set (go_modules rep)) \<and> error m \<noteq> None
                 \<longrightarrow> get_outdated_count m = 0))"
proof (intro conjI impI)
  assume "\<not> path_exists w (resolve w (arg_project_root a))"
  from main_rootless [OF this]
  show "main a w = ([Printed (ProjectRootNotFound (path_str (resolve w (arg_project_root a))))],
                    Inl (SystemExit 1))" .
  then show "exit_code (main a w) = 1"
    by (simp add: exit_code_def)
next
  assume a: "path_exists w (resolve w (arg_project_root a))
       \<and> snd (generate_report w (resolve w (arg_project_root a))) = Inr rep
       \<and> (case arg_save a of None \<Rightarrow> True
           | Some file \<Rightarrow> file = [] \<or> write_json w file rep = None)"
  then have ex: "path_exists w (resolve w (arg_project_root a))"
    and gen: "snd (generate_report w (resolve w (arg_project_root a))) = Inr rep"
    and sv: "(case arg_save a of None \<Rightarrow> None
              | Some file \<Rightarrow> if file = [] then None else write_json w file rep) = None"
    by (auto split: option.splits)
  from generate_report_Inr [OF gen] obtain s where
    s: "summary rep = Some s"
    and t: "s_total_updates s = s_total_rust_updates s + s_total_go_updates s"
       "s_total_rust_updates s = get_outdated_count (rust rep)"
       "s_total_go_updates s = sum_list (map get_outdated_count (map snd (go_modules rep)))"
    and e: "errors_count_nothing (rust rep)"
       "\<forall>m \<in> snd ` set (go_modules rep). errors_count_nothing m"
    by blast
  have "snd (main a w) = (if 0 < s_total_updates s then Inl (SystemExit 1) else Inr ())"
    by (simp add: main_snd [OF ex] gen sv s)
  then have "exit_code (main a w) = (if 0 < s_total_updates s then 1 else 0)"
    by (simp add: exit_code_def)
  with s t show "\<exists>s. summary rep = Some s
               \<and> s_total_updates s
                   = get_outdated_count (rust rep)
                     + sum_list (map get_outdated_count (map snd (go_modules rep)))
               \<and> exit_code (main a w) = (if 0 < s_total_updates s then 1 else 0)"
    by simp
  show "\<forall>m. (m = rust rep \<or> m \<in> snd ` set (go_modules rep)) \<and> error m \<noteq> None
                 \<longrightarrow> get_outdated_count m = 0"
  proof (intro allI impI)
    fix m
    assume m: "(m = rust rep \<or> m \<in> snd ` set (go_modules rep)) \<and> error m \<noteq> None"
    with e have "errors_count_nothing m"
      by blast
    with m show "get_outdated_count m = 0"
      by (simp add: errors_count_nothing_def get_outdated_count_def)
  qed
qed

theorem exit_code_cases_witness:
  "\<not> path_exists rootless_world (resolve rootless_world (arg_project_root human_args))
   \<and> main human_args rootless_world = ([Printed (ProjectRootNotFound ''/repo'')], Inl (SystemExit 1))
   \<and> exit_code (main human_args rootless_world) = 1
   \<and> path_exists go_world (resolve go_world (arg_project_root human_args))
   \<and> snd (generate_report go_world (resolve go_world (arg_project_root human_args))) = Inr go_report
   \<and> arg_save human_args = None
   \<and> (\<exists>s. summary go_report = Some s \<and> s_total_updates s = 1)
   \<and> exit_code (main human_args go_world) = 1
   \<and> path_exists stalled_world (resolve stalled_world (arg_project_root save_args))
   \<and> snd (generate_report stalled_world (resolve stalled_world (arg_project_root save_args)))
       = Inr stalled_report
   \<and> arg_save save_args = Some ''report.json''
   \<and> write_json stalled_world ''report.json'' stalled_report = None
   \<and> error (rust stalled_report) = Some ''cargo-outdated not installed''
   \<and> get_outdated_count (rust stalled_report) = 0
   \<and> (\<exists>s. summary stalled_report = Some s \<and> s_total_updates s = 0)
   \<and> exit_code (main save_args stalled_world) = 0"
proof -
  have r: "\<not> path_exists rootless_world (resolve rootless_world (arg_project_root human_args))"
    by (simp add: world_facts)
  have g: "path_exists go_world (resolve go_world (arg_project_root human_args))
       \<and> snd (generate_report go_world (resolve go_world (arg_project_root human_args))) = Inr go_report
       \<and> (case arg_save human_args of None \<Rightarrow> True
           | Some file \<Rightarrow> file = [] \<or> write_json go_world file go_report = None)"
    by (simp add: world_facts go_world_report human_args_def)
  have st: "path_exists stalled_world (resolve stalled_world (arg_project_root save_args))
       \<and> snd (generate_report stalled_world (resolve stalled_world (arg_project_root save_args)))
           = Inr stalled_report
       \<and> (case arg_save save_args of None \<Rightarrow> True
           | Some file \<Rightarrow> file = [] \<or> write_json stalled_world file stalled_report = None)"
    by (simp add: world_facts stalled_world_report save_args_def)
  have gs: "\<exists>s. summary go_report = Some s \<and> s_total_updates s = 1"
    by (simp add: go_report_def)
  have ss: "\<exists>s. summary stalled_report = Some s \<and> s_total_updates s = 0"
    by (simp add: stalled_report_def)
  have er: "error (rust stalled_report) = Some ''cargo-outdated not installed''"
    by (simp add: stalled_report_def)
  from exit_code_cases [of rootless_world human_args, THEN conjunct1, THEN mp, OF r]
  have 1: "main human_args rootless_world
             = ([Printed (ProjectRootNotFound ''/repo'')], Inl (SystemExit 1))
           \<and> exit_code (main human_args rootless_world) = 1"
    by (simp add: world_facts path_str_def exit_code_def)
  from exit_code_cases [of go_world human_args go_report, THEN conjunct2, THEN mp, OF g]
  obtain s1 where "summary go_report = Some s1"
    and "exit_code (main human_args go_world) = (if 0 < s_total_updates s1 then 1 else 0)"
    by blast
  with gs have 2: "exit_code (main human_args go_world) = 1"
    by auto
  note stalled =
    exit_code_cases [of stalled_world save_args stalled_report, THEN conjunct2, THEN mp, OF st]
  from stalled obtain s2 where "summary stalled_report = Some s2"
    and "exit_code (main save_args stalled_world) = (if 0 < s_total_updates s2 then 1 else 0)"
    by blast
  with ss have 3: "exit_code (main save_args stalled_world) = 0"
    by auto
  from stalled [THEN conjunct2, rule_format, of "rust stalled_report"] er
  have 4: "get_outdated_count (rust stalled_report) = 0"
    by simp
  have a1: "arg_save human_args = None" and a2: "arg_save save_args = Some ''report.json''"
    by (simp_all add: human_args_def save_args_def)
  from 1 have 11: "main human_args rootless_world
                     = ([Printed (ProjectRootNotFound ''/repo'')], Inl (SystemExit 1))"
    and 12: "exit_code (main human_args rootless_world) = 1"
    by blast+
  from go_world_report stalled_world_report gs ss er 11 12 2 3 4 a1 a2 show ?thesis
    by (simp add: world_facts)
qed


section \<open>Containment of failures\<close>















end
